theory Spec2Isabelle
  imports Complex_Main "HOL-Library.AList"
begin

section \<open>Tables\<close>

text \<open>
  The dashboard (\<^verbatim>\<open>app.py\<close>) keeps every dataset in a pandas DataFrame. A DataFrame is
  modelled as the ordered list of its named columns; a column carries its dtype and its
  cells, and a missing cell (NaN, None, NaT) is \<open>None\<close>. Floating-point cells are modelled
  by exact reals, so a mean below is the exact arithmetic mean and rounding is left out.
  \<open>Int64\<close> stands for an integer-valued column; pandas stores such a column as float64 once
  it holds a NaN, the values stay integers. Boolean columns, which pandas also averages,
  are not modelled.
\<close>

datatype timestamp = Timestamp (year: int) (month: nat) (day: nat)

datatype column =
    Float64 "real option list"
  | Int64 "int option list"
  | Object "string option list"
  | Datetime64 "timestamp option list"

type_synonym dataframe = "(string \<times> column) list"

datatype exn =
    KeyError string
  | ParserError
  | DataError
  | ValueError
  | ZeroDivisionError
  | RequestException
  | HTTPError
  | BadZipFile
  | StreamlitAPIException
  | FileNotFoundError string

text \<open>\<^verbatim>\<open>df[c]\<close> raises KeyError for an unknown column; \<^verbatim>\<open>df[c] = col\<close> replaces the column
  in place when it exists and appends it otherwise.\<close>

definition getitem :: "dataframe \<Rightarrow> string \<Rightarrow> exn + column" where
  "getitem df c = (case map_of df c of None \<Rightarrow> Inl (KeyError c) | Some col \<Rightarrow> Inr col)"

definition setitem :: "dataframe \<Rightarrow> string \<Rightarrow> column \<Rightarrow> dataframe" where
  "setitem df c col = AList.update c col df"

text \<open>The cells of a numeric column as numbers; \<open>None\<close> for a column that
  \<^verbatim>\<open>numeric_only=True\<close> drops.\<close>

fun numeric_values :: "column \<Rightarrow> real option list option" where
  "numeric_values (Float64 xs) = Some xs"
| "numeric_values (Int64 xs) = Some (map (map_option real_of_int) xs)"
| "numeric_values (Object xs) = None"
| "numeric_values (Datetime64 xs) = None"

fun dropna :: "'a option list \<Rightarrow> 'a list" where
  "dropna [] = []"
| "dropna (None # xs) = dropna xs"
| "dropna (Some x # xs) = x # dropna xs"

section \<open>groupby('Year').mean(numeric_only=True).reset_index()\<close>

text \<open>
  pandas factorises the key column into the sorted distinct keys (\<^verbatim>\<open>sort=True\<close>), rows
  whose key is NaN belong to no group (\<^verbatim>\<open>dropna=True\<close>). The group means are computed in
  one pass over the rows, which adds every valid cell to the running sum and to the number
  of observations of the row's group; the mean of a group is sum / observations, and NaN
  when the group has no observation.
\<close>

definition group_keys :: "int option list \<Rightarrow> int list" where
  "group_keys ys = sort (remdups (dropna ys))"

fun add_obs :: "(int \<Rightarrow> real \<times> nat) \<Rightarrow> int option \<times> real option \<Rightarrow> (int \<Rightarrow> real \<times> nat)" where
  "add_obs acc (Some k, Some x) = acc(k := (fst (acc k) + x, Suc (snd (acc k))))"
| "add_obs acc (Some k, None) = acc"
| "add_obs acc (None, v) = acc"

definition group_mean :: "int option list \<Rightarrow> real option list \<Rightarrow> int list \<Rightarrow> real option list" where
  "group_mean labels vals keys =
     (let acc = foldl add_obs (\<lambda>k. (0, 0)) (zip labels vals)
      in map (\<lambda>k. if snd (acc k) = 0 then None else Some (fst (acc k) / real (snd (acc k)))) keys)"

text \<open>The aggregate has the key first (\<^verbatim>\<open>reset_index\<close>), then the mean of every numeric
  column other than the key, in the order of the frame. Only the grouping by an integer
  \<^verbatim>\<open>Year\<close> column is modelled: \<open>process_data\<close> assigns that column on the line before, so
  the other branch of \<open>groupby_year_mean\<close> is never taken there.\<close>

definition mean_columns :: "int option list \<Rightarrow> int list \<Rightarrow> dataframe \<Rightarrow> dataframe" where
  "mean_columns labels keys df =
     List.map_filter (\<lambda>(c, col).
        if c = ''Year'' then None
        else map_option (\<lambda>xs. (c, Float64 (group_mean labels xs keys))) (numeric_values col)) df"

definition groupby_year_mean :: "dataframe \<Rightarrow> exn + dataframe" where
  "groupby_year_mean df =
     (case map_of df ''Year'' of
        Some (Int64 ys) \<Rightarrow>
          Inr ((''Year'', Int64 (map Some (group_keys ys))) # mean_columns ys (group_keys ys) df)
      | _ \<Rightarrow> Inl (KeyError ''Year''))"

section \<open>rolling(10).mean()\<close>

text \<open>
  The fixed window of size \<open>w\<close> ending at row \<open>i\<close> is kept as a running sum and a number
  of observations: row \<open>i - w\<close> leaves the window, row \<open>i\<close> enters it, NaN cells count for
  nothing. The result at \<open>i\<close> is sum / observations when there are at least \<open>minp\<close>
  observations and NaN otherwise; \<^verbatim>\<open>rolling(10)\<close> has \<open>minp = 10\<close>.
\<close>

fun add_mean :: "real option \<Rightarrow> real \<times> nat \<Rightarrow> real \<times> nat" where
  "add_mean (Some x) (s, n) = (s + x, Suc n)"
| "add_mean None (s, n) = (s, n)"

fun remove_mean :: "real option \<Rightarrow> real \<times> nat \<Rightarrow> real \<times> nat" where
  "remove_mean (Some x) (s, n) = (s - x, n - 1)"
| "remove_mean None (s, n) = (s, n)"

definition calc_mean :: "nat \<Rightarrow> real \<times> nat \<Rightarrow> real option" where
  "calc_mean minp sn = (if minp \<le> snd sn \<and> 0 < snd sn then Some (fst sn / real (snd sn)) else None)"

definition roll_step :: "nat \<Rightarrow> nat \<Rightarrow> real option list \<Rightarrow> (real \<times> nat) \<times> real option list \<Rightarrow> nat
    \<Rightarrow> (real \<times> nat) \<times> real option list" where
  "roll_step w minp xs st i =
     (let sn = (if w \<le> i then remove_mean (xs ! (i - w)) (fst st) else fst st);
          sn' = add_mean (xs ! i) sn
      in (sn', snd st @ [calc_mean minp sn']))"

definition roll_mean :: "nat \<Rightarrow> nat \<Rightarrow> real option list \<Rightarrow> real option list" where
  "roll_mean w minp xs = snd (foldl (roll_step w minp xs) ((0, 0), []) [0..<length xs])"

definition rolling_mean :: "nat \<Rightarrow> column \<Rightarrow> exn + column" where
  "rolling_mean w col =
     (case numeric_values col of
        None \<Rightarrow> Inl DataError
      | Some xs \<Rightarrow> Inr (Float64 (roll_mean w w xs)))"

section \<open>process_data\<close>

text \<open>
  \<^verbatim>\<open>pd.to_datetime\<close> is the library's parser and is a parameter of the model: it maps a
  column to the parsed dates of its cells (NaT is \<open>None\<close>), or raises (\<open>None\<close>) when a cell
  is malformed. \<open>annotate\<close> is the pair of assignments every table gets:
  \<^verbatim>\<open>t['dt'] = pd.to_datetime(t['dt']); t['Year'] = t['dt'].dt.year\<close>.
\<close>

type_synonym datetime_parser = "column \<Rightarrow> timestamp option list option"

definition dt_year :: "timestamp option list \<Rightarrow> column" where
  "dt_year ts = Int64 (map (map_option year) ts)"

definition annotate :: "datetime_parser \<Rightarrow> dataframe \<Rightarrow> exn + dataframe" where
  "annotate to_datetime t =
     (case map_of t ''dt'' of
        None \<Rightarrow> Inl (KeyError ''dt'')
      | Some col \<Rightarrow>
          (case to_datetime col of
             None \<Rightarrow> Inl ParserError
           | Some ts \<Rightarrow> Inr (setitem (setitem t ''dt'' (Datetime64 ts)) ''Year'' (dt_year ts))))"

definition global_summary :: "dataframe \<Rightarrow> exn + dataframe" where
  "global_summary global_temp =
     (case groupby_year_mean global_temp of
        Inl e \<Rightarrow> Inl e
      | Inr global_yearly \<Rightarrow>
          (case getitem global_yearly ''LandAverageTemperature'' of
             Inl e \<Rightarrow> Inl e
           | Inr col \<Rightarrow>
               (case rolling_mean 10 col of
                  Inl e \<Rightarrow> Inl e
                | Inr ma \<Rightarrow> Inr (setitem global_yearly ''10Y_MA'' ma))))"

text \<open>
  \<open>process_data\<close> receives the dictionary of the three loaded tables. The tables are
  mutable objects and the function assigns to their columns, so the model returns the
  dictionary as the call leaves it (also when the call raises) next to the result.
  The entries \<^verbatim>\<open>'countries'\<close> and \<^verbatim>\<open>'cities'\<close> of the result are the caller's own tables.
\<close>

abbreviation "GLOBAL \<equiv> ''GlobalTemperatures.csv''"
abbreviation "BY_COUNTRY \<equiv> ''GlobalLandTemperaturesByCountry.csv''"
abbreviation "BY_CITY \<equiv> ''GlobalLandTemperaturesByCity.csv''"

type_synonym tables = "string \<rightharpoonup> dataframe"

definition process_data :: "datetime_parser \<Rightarrow> tables \<Rightarrow> tables \<times> (exn + tables)" where
  "process_data to_datetime data_files =
     (case data_files GLOBAL of
        None \<Rightarrow> (data_files, Inl (KeyError GLOBAL))
      | Some global_temp \<Rightarrow>
     (case annotate to_datetime global_temp of
        Inl e \<Rightarrow> (data_files, Inl e)
      | Inr global_temp' \<Rightarrow>
     (let files1 = data_files(GLOBAL \<mapsto> global_temp') in
      case global_summary global_temp' of
        Inl e \<Rightarrow> (files1, Inl e)
      | Inr global_yearly \<Rightarrow>
     (case files1 BY_COUNTRY of
        None \<Rightarrow> (files1, Inl (KeyError BY_COUNTRY))
      | Some countries \<Rightarrow>
     (case annotate to_datetime countries of
        Inl e \<Rightarrow> (files1, Inl e)
      | Inr countries' \<Rightarrow>
     (let files2 = files1(BY_COUNTRY \<mapsto> countries') in
      case files2 BY_CITY of
        None \<Rightarrow> (files2, Inl (KeyError BY_CITY))
      | Some cities \<Rightarrow>
     (case annotate to_datetime cities of
        Inl e \<Rightarrow> (files2, Inl e)
      | Inr cities' \<Rightarrow>
          (files2(BY_CITY \<mapsto> cities'),
           Inr [''global_yearly'' \<mapsto> global_yearly,
                ''countries'' \<mapsto> countries',
                ''cities'' \<mapsto> cities']))))))))"

text \<open>
  A parser for the worked examples: the dates of the dataset are written
  \<^verbatim>\<open>YYYY-MM-DD\<close>, which \<^verbatim>\<open>pd.to_datetime\<close> reads as that day; a missing cell is NaT, a
  column that is already parsed is returned as it is. Any other text, and a numeric
  column (which does not occur in the examples), is rejected.
\<close>

definition digit :: "char \<Rightarrow> nat option" where
  "digit c = (let n = (of_char c :: nat) in if 48 \<le> n \<and> n \<le> 57 then Some (n - 48) else None)"

fun digits :: "nat \<Rightarrow> string \<Rightarrow> nat option" where
  "digits acc [] = Some acc"
| "digits acc (c # cs) = (case digit c of None \<Rightarrow> None | Some d \<Rightarrow> digits (10 * acc + d) cs)"

definition iso_day :: "string \<Rightarrow> timestamp option" where
  "iso_day s =
     (if length s = 10 \<and> s ! 4 = CHR ''-'' \<and> s ! 7 = CHR ''-'' then
        (case (digits 0 (take 4 s), digits 0 (take 2 (drop 5 s)), digits 0 (drop 8 s)) of
           (Some y, Some m, Some d) \<Rightarrow>
             if 1 \<le> m \<and> m \<le> 12 \<and> 1 \<le> d \<and> d \<le> 31 then Some (Timestamp (int y) m d) else None
         | _ \<Rightarrow> None)
      else None)"

fun iso_cells :: "string option list \<Rightarrow> timestamp option list option" where
  "iso_cells [] = Some []"
| "iso_cells (None # cs) = map_option (Cons None) (iso_cells cs)"
| "iso_cells (Some s # cs) =
     (case iso_day s of
        None \<Rightarrow> None
      | Some t \<Rightarrow> map_option (Cons (Some t)) (iso_cells cs))"

fun iso_to_datetime :: datetime_parser where
  "iso_to_datetime (Object cs) = iso_cells cs"
| "iso_to_datetime (Datetime64 ts) = Some ts"
| "iso_to_datetime (Float64 xs) = None"
| "iso_to_datetime (Int64 xs) = None"

section \<open>get_climate_data\<close>

text \<open>
  The acquisition step reads the working directory, the network and the page, and
  writes the last two and the cache files. All three are fields of \<open>world\<close>: the files
  of the working directory by name, the URLs requested so far, and what has been put on
  the page. The behaviour of the libraries it calls is the record \<open>env\<close>:
  \<^item> \<open>http_get\<close>: \<^verbatim>\<open>requests.get\<close>; \<open>None\<close> when the call raises;
  \<^item> \<open>py_int\<close>: \<^verbatim>\<open>int\<close> on a header value; \<open>None\<close> is ValueError;
  \<^item> \<open>open_zip\<close>: \<^verbatim>\<open>zipfile.ZipFile\<close>; \<open>None\<close> is BadZipFile, otherwise the members by name;
  \<^item> \<open>read_csv\<close>: \<^verbatim>\<open>pd.read_csv\<close>; \<open>None\<close> when the text does not parse;
  \<^item> \<open>to_csv\<close>: \<^verbatim>\<open>DataFrame.to_csv(index=False)\<close>.
  The header names of a response are looked up in lower case. The spinner around the
  download and the \<^verbatim>\<open>st.cache_data\<close> decorator are left out: the model is one uncached
  execution of the function body.
\<close>

type_synonym bytes = string

record response =
  status_ok :: bool
  headers :: "string \<rightharpoonup> string"
  chunks :: "bytes list"

record env =
  http_get :: "string \<Rightarrow> response option"
  py_int :: "string \<Rightarrow> int option"
  open_zip :: "bytes \<Rightarrow> (string \<rightharpoonup> bytes) option"
  read_csv :: "bytes \<Rightarrow> dataframe option"
  to_csv :: "dataframe \<Rightarrow> bytes"

datatype trace = Scatter (trace_x: column) (trace_y: column) (trace_name: string) (trace_color: string)

datatype ui_event =
    Progress real
  | ProgressEmpty
  | Error string
  | DownloadFailed exn
  | Warning string
  | PlotlyChart "trace list"

record world =
  files :: "string \<rightharpoonup> bytes"
  requests :: "string list"
  page :: "ui_event list"

text \<open>How a call ends: it returns, \<^verbatim>\<open>st.stop()\<close> halts the script (a StopException, which
  \<^verbatim>\<open>except Exception\<close> does not catch), or an exception leaves the function.\<close>

datatype 'a outcome = Returned 'a | Stopped | Raised exn

type_synonym required = "(string \<times> dataframe option) list"

definition DATA_URL :: string where
  "DATA_URL = ''https://www.dropbox.com/scl/fi/8eqzalmgvv9u7egjgyrt1/GlobalData.zip?rlkey=bf1qyz7f5atxr2c6es0ucdbdb&st=mi1ucho9&dl=1''"

definition required_files :: required where
  "required_files = [(GLOBAL, None), (BY_COUNTRY, None), (BY_CITY, None)]"

definition all_exist :: "world \<Rightarrow> bool" where
  "all_exist w = list_all (\<lambda>f. files w f \<noteq> None) (map fst required_files)"

text \<open>The steady-state path: \<^verbatim>\<open>required_files[filename] = pd.read_csv(filename)\<close> for each
  name. It is outside the \<^verbatim>\<open>try\<close>, so a file that does not parse raises out of the call.\<close>

fun read_all :: "env \<Rightarrow> (string \<rightharpoonup> bytes) \<Rightarrow> string list \<Rightarrow> required \<Rightarrow> exn + required" where
  "read_all env fs [] req = Inr req"
| "read_all env fs (filename # rest) req =
     (case fs filename of
        None \<Rightarrow> Inl (FileNotFoundError filename)
      | Some b \<Rightarrow>
          (case read_csv env b of
             None \<Rightarrow> Inl ParserError
           | Some df \<Rightarrow> read_all env fs rest (AList.update filename (Some df) req)))"

text \<open>\<^verbatim>\<open>int(response.headers.get('content-length', 0))\<close>.\<close>

definition content_length :: "env \<Rightarrow> response \<Rightarrow> int option" where
  "content_length env r =
     (case headers r ''content-length'' of None \<Rightarrow> Some 0 | Some s \<Rightarrow> py_int env s)"

text \<open>
  The loop over \<^verbatim>\<open>response.iter_content\<close>. The state is \<^verbatim>\<open>downloaded\<close>, the page and
  \<^verbatim>\<open>zip_buffer\<close>. \<^verbatim>\<open>downloaded / total_size\<close> raises ZeroDivisionError when
  \<^verbatim>\<open>total_size\<close> is 0, and \<^verbatim>\<open>progress_bar.progress\<close> raises for a value outside [0, 1].
\<close>

fun download_loop :: "int \<Rightarrow> bytes list \<Rightarrow> int \<times> ui_event list \<times> bytes
    \<Rightarrow> ui_event list \<times> (exn + bytes)" where
  "download_loop total_size [] (downloaded, pg, zip_buffer) = (pg, Inr zip_buffer)"
| "download_loop total_size (chunk # rest) (downloaded, pg, zip_buffer) =
     (let downloaded' = downloaded + int (length chunk) in
      if total_size = 0 then (pg, Inl ZeroDivisionError)
      else
        (let progress = min (real_of_int downloaded' / real_of_int total_size) 1 in
         if \<not> (0 \<le> progress \<and> progress \<le> 1) then (pg, Inl StreamlitAPIException)
         else download_loop total_size rest
                (downloaded', pg @ [Progress progress], zip_buffer @ chunk)))"

text \<open>Lines 33 to 52: the request, the progress loop and opening the archive.\<close>

definition fetch_archive :: "env \<Rightarrow> world \<Rightarrow> world \<times> (exn + (string \<rightharpoonup> bytes))" where
  "fetch_archive env w =
     (let w1 = w\<lparr>requests := requests w @ [DATA_URL]\<rparr> in
      case http_get env DATA_URL of
        None \<Rightarrow> (w1, Inl RequestException)
      | Some r \<Rightarrow>
          if \<not> status_ok r then (w1, Inl HTTPError)
          else
            (let w2 = w1\<lparr>page := page w1 @ [Progress 0]\<rparr> in
             case content_length env r of
               None \<Rightarrow> (w2, Inl ValueError)
             | Some total_size \<Rightarrow>
                 (case download_loop total_size (chunks r) (0, page w2, []) of
                    (pg, Inl e) \<Rightarrow> (w2\<lparr>page := pg\<rparr>, Inl e)
                  | (pg, Inr zip_buffer) \<Rightarrow>
                      (let w3 = w2\<lparr>page := pg @ [ProgressEmpty]\<rparr> in
                       case open_zip env zip_buffer of
                         None \<Rightarrow> (w3, Inl BadZipFile)
                       | Some z \<Rightarrow> (w3, Inr z)))))"

text \<open>Lines 53 to 58: a member of the archive is parsed, a missing member is reported
  and the loop goes on; a member that does not parse raises.\<close>

fun extract_all :: "env \<Rightarrow> (string \<rightharpoonup> bytes) \<Rightarrow> string list \<Rightarrow> required \<times> ui_event list
    \<Rightarrow> ui_event list \<times> (exn + required)" where
  "extract_all env z [] (req, pg) = (pg, Inr req)"
| "extract_all env z (filename # rest) (req, pg) =
     (case z filename of
        None \<Rightarrow> extract_all env z rest (req, pg @ [Error (''Missing file in ZIP: '' @ filename)])
      | Some b \<Rightarrow>
          (case read_csv env b of
             None \<Rightarrow> (pg, Inl ParserError)
           | Some df \<Rightarrow> extract_all env z rest (AList.update filename (Some df) req, pg)))"

text \<open>Lines 61 to 63: \<^verbatim>\<open>if df is not None and not os.path.exists(filename): df.to_csv(...)\<close>.\<close>

fun save_all :: "env \<Rightarrow> required \<Rightarrow> (string \<rightharpoonup> bytes) \<Rightarrow> (string \<rightharpoonup> bytes)" where
  "save_all env [] fs = fs"
| "save_all env ((filename, df) # rest) fs =
     save_all env rest
       (case df of
          None \<Rightarrow> fs
        | Some d \<Rightarrow> if fs filename = None then fs(filename \<mapsto> to_csv env d) else fs)"

definition get_climate_data :: "env \<Rightarrow> world \<Rightarrow> world \<times> required outcome" where
  "get_climate_data env w =
     (if all_exist w then
        (case read_all env (files w) (map fst required_files) required_files of
           Inl e \<Rightarrow> (w, Raised e)
         | Inr req \<Rightarrow> (w, Returned req))
      else
        (case fetch_archive env w of
           (w3, Inl e) \<Rightarrow> (w3\<lparr>page := page w3 @ [DownloadFailed e]\<rparr>, Stopped)
         | (w3, Inr z) \<Rightarrow>
             (case extract_all env z (map fst required_files) (required_files, page w3) of
                (pg, Inl e) \<Rightarrow> (w3\<lparr>page := pg @ [DownloadFailed e]\<rparr>, Stopped)
              | (pg, Inr req) \<Rightarrow>
                  (let w4 = w3\<lparr>page := pg, files := save_all env req (files w3)\<rparr> in
                   if \<not> list_all (\<lambda>df. df \<noteq> None) (map snd req) then
                     (w4\<lparr>page := page w4 @ [Error ''One or more files failed to load properly.'']\<rparr>,
                      Stopped)
                   else (w4, Returned req)))))"

section \<open>The city comparison tab\<close>

text \<open>
  Lines 242 to 265, from the selection the multiselect returned. A boolean mask keeps the
  rows of a frame whose mask is true; \<^verbatim>\<open>isin\<close> and \<^verbatim>\<open>==\<close> against city names are true
  only on text cells.
\<close>

fun isin :: "column \<Rightarrow> string list \<Rightarrow> bool list" where
  "isin (Object cs) vs = map (\<lambda>c. case c of None \<Rightarrow> False | Some s \<Rightarrow> s \<in> set vs) cs"
| "isin (Float64 xs) vs = map (\<lambda>c. False) xs"
| "isin (Int64 xs) vs = map (\<lambda>c. False) xs"
| "isin (Datetime64 xs) vs = map (\<lambda>c. False) xs"

definition keep :: "bool list \<Rightarrow> 'a list \<Rightarrow> 'a list" where
  "keep bs xs = map snd (filter fst (zip bs xs))"

fun select_cells :: "bool list \<Rightarrow> column \<Rightarrow> column" where
  "select_cells bs (Float64 xs) = Float64 (keep bs xs)"
| "select_cells bs (Int64 xs) = Int64 (keep bs xs)"
| "select_cells bs (Object xs) = Object (keep bs xs)"
| "select_cells bs (Datetime64 xs) = Datetime64 (keep bs xs)"

definition select_rows :: "bool list \<Rightarrow> dataframe \<Rightarrow> dataframe" where
  "select_rows bs df = map (\<lambda>(c, col). (c, select_cells bs col)) df"

definition colors :: "string list" where
  "colors = [''#FF6B6B'', ''#4ECDC4'', ''#45B7D1'', ''#FFA07A'']"

fun city_traces :: "dataframe \<Rightarrow> (nat \<times> string) list \<Rightarrow> exn + trace list" where
  "city_traces city_data [] = Inr []"
| "city_traces city_data ((i, city) # rest) =
     (case getitem city_data ''City'' of
        Inl e \<Rightarrow> Inl e
      | Inr col \<Rightarrow>
          (let city_df = select_rows (isin col [city]) city_data in
           case getitem city_df ''Year'' of
             Inl e \<Rightarrow> Inl e
           | Inr x \<Rightarrow>
               (case getitem city_df ''AverageTemperature'' of
                  Inl e \<Rightarrow> Inl e
                | Inr y \<Rightarrow>
                    (case city_traces city_data rest of
                       Inl e \<Rightarrow> Inl e
                     | Inr ts \<Rightarrow> Inr (Scatter x y city (colors ! (i mod length colors)) # ts)))))"

definition tab3 :: "dataframe \<Rightarrow> string list \<Rightarrow> exn + ui_event list" where
  "tab3 cities selected_cities =
     (if selected_cities \<noteq> [] then
        (case getitem cities ''City'' of
           Inl e \<Rightarrow> Inl e
         | Inr col \<Rightarrow>
             (let city_data = select_rows (isin col selected_cities) cities in
              case city_traces city_data (zip [0..<length selected_cities] selected_cities) of
                Inl e \<Rightarrow> Inl e
              | Inr ts \<Rightarrow> Inr [PlotlyChart ts]))
      else Inr [Warning ''Please select at least one city''])"

section \<open>Notions of the specification\<close>

text \<open>The arithmetic mean of a list of numbers, undefined for the empty list, and the
  valid (non-missing) cells of a column over the records of year \<open>k\<close>.\<close>

definition arithmetic_mean :: "real list \<Rightarrow> real option" where
  "arithmetic_mean vs = (if vs = [] then None else Some (sum_list vs / real (length vs)))"

definition group_values :: "int option list \<Rightarrow> real option list \<Rightarrow> int \<Rightarrow> real list" where
  "group_values labels vals k = dropna (map snd (filter (\<lambda>p. fst p = Some k) (zip labels vals)))"

text \<open>The yearly summary a call of \<open>process_data\<close> returns, when it returns.\<close>

definition summary_of :: "datetime_parser \<Rightarrow> tables \<Rightarrow> dataframe option" where
  "summary_of to_datetime data_files =
     (case snd (process_data to_datetime data_files) of
        Inl e \<Rightarrow> None
      | Inr out \<Rightarrow> out ''global_yearly'')"

text \<open>The exception a call of \<open>process_data\<close> raises, when it raises.\<close>

definition failure_of :: "datetime_parser \<Rightarrow> tables \<Rightarrow> exn option" where
  "failure_of to_datetime data_files =
     (case snd (process_data to_datetime data_files) of
        Inl e \<Rightarrow> Some e
      | Inr out \<Rightarrow> None)"

text \<open>The sum and the number of the valid cells in rows \<open>a\<close> to \<open>b - 1\<close>.\<close>

definition vsum :: "real option list \<Rightarrow> nat \<Rightarrow> nat \<Rightarrow> real" where
  "vsum xs a b = (\<Sum>j = a..<b. case xs ! j of None \<Rightarrow> 0 | Some x \<Rightarrow> x)"

definition vcnt :: "real option list \<Rightarrow> nat \<Rightarrow> nat \<Rightarrow> nat" where
  "vcnt xs a b = (\<Sum>j = a..<b. if xs ! j = None then 0 else 1)"

text \<open>The bytes received once chunk \<open>i\<close> has arrived.\<close>

definition bytes_received :: "bytes list \<Rightarrow> nat \<Rightarrow> nat" where
  "bytes_received cs i = length (concat (take (Suc i) cs))"

text \<open>What loading dataset \<open>f\<close> gives in a run from \<open>w\<close>: the table read from the cache file
  on the steady-state path, the table parsed from the archive member on the download path,
  and \<open>None\<close> when the dataset fails to load (no response, an error status, no archive, no
  member, or text that does not parse).\<close>

definition loaded :: "env \<Rightarrow> world \<Rightarrow> string \<Rightarrow> dataframe option" where
  "loaded env w f =
     (if all_exist w then Option.bind (files w f) (read_csv env)
      else
        (case http_get env DATA_URL of
           None \<Rightarrow> None
         | Some r \<Rightarrow>
             if \<not> status_ok r then None
             else Option.bind (open_zip env (concat (chunks r)))
                    (\<lambda>z. Option.bind (z f) (read_csv env))))"

text \<open>On the download path, whether every member of the archive that is there parses.\<close>

definition members_parse :: "env \<Rightarrow> (string \<rightharpoonup> bytes) \<Rightarrow> bool" where
  "members_parse env z =
     list_all (\<lambda>f. case z f of None \<Rightarrow> True | Some b \<Rightarrow> read_csv env b \<noteq> None)
       (map fst required_files)"

section \<open>Worked inputs\<close>

definition small_country :: dataframe where
  "small_country =
     [(''dt'', Object [Some ''1900-01-01'', Some ''1900-02-01'', Some ''1901-01-01'']),
      (''AverageTemperature'', Float64 [Some 10, Some 20, Some 30]),
      (''Country'', Object [Some ''India'', Some ''India'', Some ''India''])]"

definition small_city :: dataframe where
  "small_city =
     [(''dt'', Object [Some ''1900-01-01'', Some ''1900-01-01'', Some ''1901-01-01'']),
      (''AverageTemperature'', Float64 [Some 25, Some 3, Some 26]),
      (''City'', Object [Some ''Delhi'', Some ''London'', Some ''Delhi''])]"

definition tables_of :: "dataframe \<Rightarrow> tables" where
  "tables_of g = [GLOBAL \<mapsto> g, BY_COUNTRY \<mapsto> small_country, BY_CITY \<mapsto> small_city]"

text \<open>Three years with a gap: 1900 twice, 1901, and 1903 with no valid temperature.\<close>

definition global_1900 :: dataframe where
  "global_1900 =
     [(''dt'', Object [Some ''1900-01-01'', Some ''1900-02-01'', Some ''1901-01-01'',
                       Some ''1903-01-01'']),
      (''LandAverageTemperature'', Float64 [Some 10, Some 20, Some 30, None]),
      (''Source'', Object [Some ''a'', Some ''b'', None, None])]"

text \<open>Twelve years, one record each; the year 2010 has no valid temperature.\<close>

definition global_decade :: dataframe where
  "global_decade =
     [(''dt'', Object [Some ''2000-06-01'', Some ''2001-06-01'', Some ''2002-06-01'',
                       Some ''2003-06-01'', Some ''2004-06-01'', Some ''2005-06-01'',
                       Some ''2006-06-01'', Some ''2007-06-01'', Some ''2008-06-01'',
                       Some ''2009-06-01'', Some ''2010-06-01'', Some ''2011-06-01'']),
      (''LandAverageTemperature'',
         Float64 [Some 1, Some 2, Some 3, Some 4, Some 5, Some 6, Some 7, Some 8, Some 9,
                  Some 10, None, Some 12])]"

text \<open>A global table with a date that does not parse, and one without the temperature
  column.\<close>

definition global_malformed :: dataframe where
  "global_malformed =
     [(''dt'', Object [Some ''1900-01-01'', Some ''yesterday'']),
      (''LandAverageTemperature'', Float64 [Some 10, Some 20])]"

definition global_no_temperature :: dataframe where
  "global_no_temperature = [(''dt'', Object [Some ''1900-01-01''])]"

text \<open>A toy environment: the archive \<^verbatim>\<open>PK\<close> followed by the letters of its members, one
  line of text per table, and decimal header values.\<close>

definition toy_table :: "string \<Rightarrow> dataframe" where
  "toy_table b = [(''dt'', Object [Some b])]"

definition toy_read_csv :: "bytes \<Rightarrow> dataframe option" where
  "toy_read_csv b = (if b = [] then None else Some (toy_table b))"

definition toy_to_csv :: "dataframe \<Rightarrow> bytes" where
  "toy_to_csv df = (case df of [(c, Object [Some b])] \<Rightarrow> b | _ \<Rightarrow> [])"

definition toy_open_zip :: "bytes \<Rightarrow> (string \<rightharpoonup> bytes) option" where
  "toy_open_zip b =
     (if take 2 b = ''PK'' then
        Some (\<lambda>f. if f = GLOBAL \<and> CHR ''g'' \<in> set b then Some ''1900-01-01''
                  else if f = BY_COUNTRY \<and> CHR ''c'' \<in> set b then Some ''1900-02-01''
                  else if f = BY_CITY \<and> CHR ''y'' \<in> set b then Some ''1900-03-01''
                  else if f = BY_CITY \<and> CHR ''x'' \<in> set b then Some []
                  else None)
      else None)"

definition toy_int :: "string \<Rightarrow> int option" where
  "toy_int s = (if s = [] then None else map_option int (digits 0 s))"

definition toy_env :: "response \<Rightarrow> env" where
  "toy_env r = \<lparr>http_get = (\<lambda>url. if url = DATA_URL then Some r else None),
               py_int = toy_int, open_zip = toy_open_zip,
               read_csv = toy_read_csv, to_csv = toy_to_csv\<rparr>"

definition empty_world :: world where
  "empty_world = \<lparr>files = Map.empty, requests = [], page = []\<rparr>"

definition cached_world :: world where
  "cached_world =
     \<lparr>files = [GLOBAL \<mapsto> ''1900-01-01'', BY_COUNTRY \<mapsto> ''1900-02-01'', BY_CITY \<mapsto> ''1900-03-01''],
      requests = [], page = []\<rparr>"

text \<open>All three cache files exist, the first one is empty.\<close>

definition corrupt_world :: world where
  "corrupt_world =
     \<lparr>files = [GLOBAL \<mapsto> [], BY_COUNTRY \<mapsto> ''1900-02-01'', BY_CITY \<mapsto> ''1900-03-01''],
      requests = [], page = []\<rparr>"

text \<open>Only the country file is cached, with a content of its own.\<close>

definition partial_world :: world where
  "partial_world = \<lparr>files = [BY_COUNTRY \<mapsto> ''1850-01-01''], requests = [], page = []\<rparr>"

text \<open>Responses: a full archive in two chunks with its length declared, the same with no
  length, one whose body is longer than declared, one without the city member, and one
  whose city member does not parse.\<close>

definition full_response :: response where
  "full_response =
     \<lparr>status_ok = True, headers = [''content-length'' \<mapsto> ''5''], chunks = [''PKg'', ''cy'']\<rparr>"

definition no_length_response :: response where
  "no_length_response = \<lparr>status_ok = True, headers = Map.empty, chunks = [''PKg'', ''cy'']\<rparr>"

definition long_response :: response where
  "long_response =
     \<lparr>status_ok = True, headers = [''content-length'' \<mapsto> ''4''], chunks = [''PKg'', ''cy'']\<rparr>"

definition missing_city_response :: response where
  "missing_city_response =
     \<lparr>status_ok = True, headers = [''content-length'' \<mapsto> ''4''], chunks = [''PKg'', ''c'']\<rparr>"

definition bad_city_response :: response where
  "bad_city_response =
     \<lparr>status_ok = True, headers = [''content-length'' \<mapsto> ''5''], chunks = [''PKg'', ''cx'']\<rparr>"

section \<open>The rolling mean is the mean of the window\<close>

lemma add_mean_window:
  "a \<le> b \<Longrightarrow> add_mean (xs ! b) (vsum xs a b, vcnt xs a b) = (vsum xs a (Suc b), vcnt xs a (Suc b))"
  by (cases "xs ! b") (simp_all add: vsum_def vcnt_def)

lemma remove_mean_window:
  "a < b \<Longrightarrow> remove_mean (xs ! a) (vsum xs a b, vcnt xs a b) = (vsum xs (Suc a) b, vcnt xs (Suc a) b)"
  by (cases "xs ! a") (simp_all add: vsum_def vcnt_def sum.atLeast_Suc_lessThan)

lemma roll_step_window:
  assumes "0 < w"
  shows "roll_step w minp xs ((vsum xs (k - w) k, vcnt xs (k - w) k), out) k =
         ((vsum xs (Suc k - w) (Suc k), vcnt xs (Suc k - w) (Suc k)),
          out @ [calc_mean minp (vsum xs (Suc k - w) (Suc k), vcnt xs (Suc k - w) (Suc k))])"
proof (cases "w \<le> k")
  case True
  then have lt: "k - w < k" and s: "Suc (k - w) = Suc k - w" and le: "Suc k - w \<le> k"
    using assms by auto
  show ?thesis
    using True remove_mean_window [OF lt, of xs] add_mean_window [OF le, of xs]
    by (simp add: roll_step_def s Let_def)
next
  case False
  then have z: "k - w = 0" "Suc k - w = 0" by auto
  show ?thesis
    using False add_mean_window [of 0 k xs] by (simp add: roll_step_def z Let_def)
qed

lemma roll_fold:
  assumes "0 < w"
  shows "foldl (roll_step w minp xs) ((0, 0), []) [0..<k] =
         ((vsum xs (k - w) k, vcnt xs (k - w) k),
          map (\<lambda>i. calc_mean minp (vsum xs (Suc i - w) (Suc i), vcnt xs (Suc i - w) (Suc i))) [0..<k])"
proof (induction k)
  case 0
  show ?case by (simp add: vsum_def vcnt_def)
next
  case (Suc k)
  show ?case
    by (simp add: Suc.IH roll_step_window [OF assms])
qed

lemma roll_mean_window:
  "0 < w \<Longrightarrow> roll_mean w minp xs =
     map (\<lambda>i. calc_mean minp (vsum xs (Suc i - w) (Suc i), vcnt xs (Suc i - w) (Suc i))) [0..<length xs]"
  by (simp add: roll_mean_def roll_fold)

lemma vcnt_le: "vcnt xs a b \<le> b - a"
proof -
  have "vcnt xs a b \<le> (\<Sum>j = a..<b. 1)"
    unfolding vcnt_def by (rule sum_mono) simp
  then show ?thesis by simp
qed

lemma vcnt_full: "vcnt xs a b = b - a \<longleftrightarrow> (\<forall>j\<in>{a..<b}. xs ! j \<noteq> None)"
proof
  assume h: "vcnt xs a b = b - a"
  show "\<forall>j\<in>{a..<b}. xs ! j \<noteq> None"
  proof (rule ccontr)
    assume "\<not> (\<forall>j\<in>{a..<b}. xs ! j \<noteq> None)"
    then obtain j where j: "j \<in> {a..<b}" "xs ! j = None" by auto
    have "vcnt xs a b < (\<Sum>j = a..<b. 1)"
      unfolding vcnt_def
      by (rule sum_strict_mono_ex1) (use j in auto)
    with h show False by simp
  qed
next
  assume "\<forall>j\<in>{a..<b}. xs ! j \<noteq> None"
  then have "vcnt xs a b = (\<Sum>j = a..<b. 1)"
    unfolding vcnt_def by (intro sum.cong) auto
  then show "vcnt xs a b = b - a" by simp
qed

lemma vsum_the: "\<forall>j\<in>{a..<b}. xs ! j \<noteq> None \<Longrightarrow> vsum xs a b = (\<Sum>j = a..<b. the (xs ! j))"
  unfolding vsum_def
proof (intro sum.cong refl)
  fix x assume h: "\<forall>j\<in>{a..<b}. xs ! j \<noteq> None" and x: "x \<in> {a..<b}"
  then obtain y where "xs ! x = Some y" by blast
  then show "(case xs ! x of None \<Rightarrow> 0 | Some x \<Rightarrow> x) = the (xs ! x)" by simp
qed

lemma calc_mean_10:
  "calc_mean 10 (vsum xs (Suc i - 10) (Suc i), vcnt xs (Suc i - 10) (Suc i)) =
     (if i < 9 then None
      else if \<forall>j\<in>{i - 9..i}. xs ! j \<noteq> None then Some ((\<Sum>j = i - 9..i. the (xs ! j)) / 10)
      else None)"
proof (cases "i < 9")
  case True
  have "vcnt xs (Suc i - 10) (Suc i) \<le> Suc i - (Suc i - 10)" by (rule vcnt_le)
  with True have "vcnt xs (Suc i - 10) (Suc i) < 10" by simp
  with True show ?thesis by (simp add: calc_mean_def)
next
  case False
  then have a: "Suc i - 10 = i - 9" and sz: "Suc i - (i - 9) = 10" by auto
  have iv: "{i - 9..<Suc i} = {i - 9..i}" by auto
  have le: "vcnt xs (i - 9) (Suc i) \<le> 10" using vcnt_le [of xs "i - 9" "Suc i"] sz by simp
  show ?thesis
  proof (cases "\<forall>j\<in>{i - 9..i}. xs ! j \<noteq> None")
    case True
    then have all: "\<forall>j\<in>{i - 9..<Suc i}. xs ! j \<noteq> None" unfolding iv .
    have "vcnt xs (i - 9) (Suc i) = 10" using vcnt_full [of xs "i - 9" "Suc i"] all sz by simp
    moreover have "vsum xs (i - 9) (Suc i) = (\<Sum>j = i - 9..i. the (xs ! j))"
      using vsum_the [OF all] by (simp only: iv)
    ultimately have "calc_mean 10 (vsum xs (Suc i - 10) (Suc i), vcnt xs (Suc i - 10) (Suc i)) =
        Some ((\<Sum>j = i - 9..i. the (xs ! j)) / 10)"
      by (simp add: calc_mean_def a)
    then show ?thesis using False True by (simp only: if_P if_not_P if_False if_True)
  next
    case F: False
    then have "\<not> (\<forall>j\<in>{i - 9..<Suc i}. xs ! j \<noteq> None)" unfolding iv .
    then have "vcnt xs (i - 9) (Suc i) \<noteq> 10" using vcnt_full [of xs "i - 9" "Suc i"] sz by simp
    with le have "vcnt xs (i - 9) (Suc i) < 10" by simp
    then have "calc_mean 10 (vsum xs (Suc i - 10) (Suc i), vcnt xs (Suc i - 10) (Suc i)) = None"
      by (simp add: calc_mean_def a)
    then show ?thesis using False F by (simp only: if_P if_not_P if_False if_True)
  qed
qed

lemma roll_mean_10_nth:
  assumes "i < length xs"
  shows "roll_mean 10 10 xs ! i =
     (if i < 9 then None
      else if \<forall>j\<in>{i - 9..i}. xs ! j \<noteq> None then Some ((\<Sum>j = i - 9..i. the (xs ! j)) / 10)
      else None)"
proof -
  have "roll_mean 10 10 xs ! i =
      calc_mean 10 (vsum xs (Suc i - 10) (Suc i), vcnt xs (Suc i - 10) (Suc i))"
    using assms by (simp add: roll_mean_window)
  then show ?thesis by (simp only: calc_mean_10)
qed

lemma length_roll_mean: "0 < w \<Longrightarrow> length (roll_mean w minp xs) = length xs"
  by (simp add: roll_mean_window)

section \<open>The group mean is the arithmetic mean of the group\<close>

lemma foldl_add_obs:
  "foldl add_obs acc ps k =
     (fst (acc k) + sum_list (dropna (map snd (filter (\<lambda>p. fst p = Some k) ps))),
      snd (acc k) + length (dropna (map snd (filter (\<lambda>p. fst p = Some k) ps))))"
proof (induction ps arbitrary: acc)
  case Nil
  show ?case by simp
next
  case (Cons p ps)
  obtain l v where p: "p = (l, v)" by (cases p)
  show ?case
  proof (cases l)
    case None
    then show ?thesis by (simp add: p Cons.IH)
  next
    case (Some k')
    then show ?thesis by (cases v) (simp_all add: p Cons.IH)
  qed
qed

lemma group_mean_arithmetic:
  "group_mean labels vals keys = map (\<lambda>k. arithmetic_mean (group_values labels vals k)) keys"
  by (simp add: group_mean_def foldl_add_obs group_values_def arithmetic_mean_def Let_def)

lemma set_dropna: "set (dropna xs) = {x. Some x \<in> set xs}"
  by (induction xs rule: dropna.induct) auto

lemma group_keys_strict: "sorted_wrt (<) (group_keys ys)"
  by (simp add: group_keys_def strict_sorted_iff)

lemma set_group_keys: "set (group_keys ys) = {y. Some y \<in> set ys}"
  by (simp add: group_keys_def set_dropna)

lemma mean_columns_Nil: "mean_columns labels keys [] = []"
  by (simp add: mean_columns_def)

lemma mean_columns_Cons:
  "mean_columns labels keys ((c', col') # df) =
      (if c' = ''Year'' then mean_columns labels keys df
       else case numeric_values col' of
              None \<Rightarrow> mean_columns labels keys df
            | Some xs \<Rightarrow> (c', Float64 (group_mean labels xs keys)) # mean_columns labels keys df)"
  by (simp add: mean_columns_def split: option.split)

lemma mean_columns_Year: "map_of (mean_columns labels keys df) ''Year'' = None"
proof (induction df)
  case Nil
  show ?case by (simp add: mean_columns_Nil)
next
  case (Cons p df)
  obtain c' col' where p: "p = (c', col')" by (cases p)
  note tl = mean_columns_Cons [of labels keys c' col' df]
  from Cons show ?case
    by (auto simp: tl p split: if_splits option.splits)
qed

lemma map_of_mean_columns:
  "distinct (map fst df) \<Longrightarrow>
   map_of (mean_columns labels keys df) c =
     (if c = ''Year'' then None
      else case map_of df c of
             None \<Rightarrow> None
           | Some col \<Rightarrow> map_option (\<lambda>xs. Float64 (group_mean labels xs keys)) (numeric_values col))"
proof (induction df)
  case Nil
  show ?case by (simp add: mean_columns_Nil)
next
  case (Cons p df)
  obtain c' col' where p: "p = (c', col')" by (cases p)
  from Cons.prems have d: "distinct (map fst df)" and notin: "c' \<notin> fst ` set df" by (auto simp: p)
  note tl = mean_columns_Cons [of labels keys c' col' df]
  have none: "map_of df c' = None" using notin by (simp add: map_of_eq_None_iff)
  show ?case
  proof (cases "c = c'")
    case True
    then show ?thesis
      using Cons.IH [OF d] none by (auto simp: tl p mean_columns_Year split: option.split)
  next
    case False
    then show ?thesis
      using Cons.IH [OF d] by (auto simp: tl p mean_columns_Year split: option.split)
  qed
qed

lemma mean_columns_group_mean:
  "map_of (mean_columns labels keys df) c = Some col \<Longrightarrow>
     \<exists>xs. col = Float64 (group_mean labels xs keys)"
proof (induction df)
  case Nil
  then show ?case by (simp add: mean_columns_Nil)
next
  case (Cons p df)
  obtain c' col' where p: "p = (c', col')" by (cases p)
  note tl = mean_columns_Cons [of labels keys c' col' df]
  from Cons show ?case
    by (auto simp: tl p split: if_splits option.splits)
qed

section \<open>The steps of process_data\<close>

lemma map_of_setitem: "map_of (setitem df c col) = (map_of df)(c \<mapsto> col)"
  by (simp add: setitem_def update_conv')

lemma distinct_setitem: "distinct (map fst df) \<Longrightarrow> distinct (map fst (setitem df c col))"
  by (simp add: setitem_def distinct_update)

lemma annotate_Inr:
  assumes "annotate to_datetime t = Inr t'"
  obtains col ts where "map_of t ''dt'' = Some col" "to_datetime col = Some ts"
    "t' = setitem (setitem t ''dt'' (Datetime64 ts)) ''Year'' (dt_year ts)"
  using assms by (auto simp: annotate_def split: option.splits)

lemma annotate_columns:
  assumes "annotate to_datetime t = Inr t'"
  shows "\<exists>col ts. map_of t ''dt'' = Some col \<and> to_datetime col = Some ts \<and>
           map_of t' = (map_of t)(''dt'' \<mapsto> Datetime64 ts, ''Year'' \<mapsto> dt_year ts)"
  using assms by (auto simp: annotate_def map_of_setitem split: option.splits)

lemma global_summary_Inr:
  assumes "global_summary g = Inr gy"
  obtains ys lat where "map_of g ''Year'' = Some (Int64 ys)"
    "map_of (mean_columns ys (group_keys ys) g) ''LandAverageTemperature'' = Some (Float64 lat)"
    "gy = setitem ((''Year'', Int64 (map Some (group_keys ys))) # mean_columns ys (group_keys ys) g)
            ''10Y_MA'' (Float64 (roll_mean 10 10 lat))"
proof -
  from assms obtain ys where ys: "map_of g ''Year'' = Some (Int64 ys)"
    by (auto simp: global_summary_def groupby_year_mean_def split: option.splits column.splits)
  let ?m = "mean_columns ys (group_keys ys) g"
  from assms ys obtain col where col: "map_of ?m ''LandAverageTemperature'' = Some col"
    by (auto simp: global_summary_def groupby_year_mean_def getitem_def split: option.splits)
  then obtain lat where lat: "col = Float64 lat" using mean_columns_group_mean by blast
  from assms ys col lat
  have "gy = setitem ((''Year'', Int64 (map Some (group_keys ys))) # ?m) ''10Y_MA'' (Float64 (roll_mean 10 10 lat))"
    by (simp add: global_summary_def groupby_year_mean_def getitem_def rolling_mean_def)
  with ys col lat that show thesis by blast
qed

lemma process_data_Inr:
  assumes "process_data to_datetime data_files = (files', Inr out)"
  obtains g g' gy c c' ci ci' where
    "data_files GLOBAL = Some g" "annotate to_datetime g = Inr g'" "global_summary g' = Inr gy"
    "data_files BY_COUNTRY = Some c" "annotate to_datetime c = Inr c'"
    "data_files BY_CITY = Some ci" "annotate to_datetime ci = Inr ci'"
    "files' = data_files(GLOBAL \<mapsto> g', BY_COUNTRY \<mapsto> c', BY_CITY \<mapsto> ci')"
    "out = [''global_yearly'' \<mapsto> gy, ''countries'' \<mapsto> c', ''cities'' \<mapsto> ci']"
  using assms
  by (auto simp: process_data_def Let_def split: option.splits sum.splits)

lemma length_group_mean: "length (group_mean labels vals keys) = length keys"
  by (simp add: group_mean_arithmetic)

lemma summary_columns:
  assumes "global_summary g = Inr gy"
  shows "\<exists>ys. map_of g ''Year'' = Some (Int64 ys) \<and>
           map_of gy = (map_of (mean_columns ys (group_keys ys) g))
              (''Year'' \<mapsto> Int64 (map Some (group_keys ys)),
               ''10Y_MA'' \<mapsto> Float64 (roll_mean 10 10
                  (case map_of (mean_columns ys (group_keys ys) g) ''LandAverageTemperature'' of
                     Some (Float64 lat) \<Rightarrow> lat | _ \<Rightarrow> []))) \<and>
           (\<exists>lat. map_of (mean_columns ys (group_keys ys) g) ''LandAverageTemperature'' = Some (Float64 lat))"
proof -
  from assms obtain ys lat where
    ys: "map_of g ''Year'' = Some (Int64 ys)" and
    lat: "map_of (mean_columns ys (group_keys ys) g) ''LandAverageTemperature'' = Some (Float64 lat)" and
    gy: "gy = setitem ((''Year'', Int64 (map Some (group_keys ys))) # mean_columns ys (group_keys ys) g)
            ''10Y_MA'' (Float64 (roll_mean 10 10 lat))"
    by (rule global_summary_Inr)
  have "map_of gy = (map_of (mean_columns ys (group_keys ys) g))
              (''Year'' \<mapsto> Int64 (map Some (group_keys ys)),
               ''10Y_MA'' \<mapsto> Float64 (roll_mean 10 10 lat))"
    by (simp add: gy map_of_setitem)
  with ys lat show ?thesis by simp
qed

lemma summary_of_source:
  assumes run: "process_data to_datetime data_files = (files', Inr out)"
    and g: "data_files GLOBAL = Some g"
  obtains col ts gy where
    "map_of g ''dt'' = Some col" "to_datetime col = Some ts" "out ''global_yearly'' = Some gy"
    "map_of gy = (map_of (mean_columns (map (map_option year) ts) (group_keys (map (map_option year) ts))
                    (setitem (setitem g ''dt'' (Datetime64 ts)) ''Year'' (dt_year ts))))
              (''Year'' \<mapsto> Int64 (map Some (group_keys (map (map_option year) ts))),
               ''10Y_MA'' \<mapsto> Float64 (roll_mean 10 10
                  (case map_of (mean_columns (map (map_option year) ts) (group_keys (map (map_option year) ts))
                         (setitem (setitem g ''dt'' (Datetime64 ts)) ''Year'' (dt_year ts)))
                        ''LandAverageTemperature'' of
                     Some (Float64 lat) \<Rightarrow> lat | _ \<Rightarrow> [])))"
proof -
  from run obtain g0 g' gy where g0: "data_files GLOBAL = Some g0"
    and an: "annotate to_datetime g0 = Inr g'"
    and gs: "global_summary g' = Inr gy" and out: "out ''global_yearly'' = Some gy"
    by (rule process_data_Inr) simp
  from g g0 have [simp]: "g0 = g" by simp
  from an obtain col ts where col: "map_of g ''dt'' = Some col" and ts: "to_datetime col = Some ts"
    and g': "g' = setitem (setitem g ''dt'' (Datetime64 ts)) ''Year'' (dt_year ts)"
    by (rule annotate_Inr) simp
  have yr: "map_of g' ''Year'' = Some (Int64 (map (map_option year) ts))"
    by (simp add: g' map_of_setitem dt_year_def)
  from summary_columns [OF gs] yr
  have "map_of gy = (map_of (mean_columns (map (map_option year) ts) (group_keys (map (map_option year) ts)) g'))
              (''Year'' \<mapsto> Int64 (map Some (group_keys (map (map_option year) ts))),
               ''10Y_MA'' \<mapsto> Float64 (roll_mean 10 10
                  (case map_of (mean_columns (map (map_option year) ts) (group_keys (map (map_option year) ts)) g')
                        ''LandAverageTemperature'' of
                     Some (Float64 lat) \<Rightarrow> lat | _ \<Rightarrow> [])))"
    by auto
  with col ts out that show thesis unfolding g' by blast
qed

lemma Some_in_map_option:
  "Some y \<in> set (map (map_option f) xs) \<longleftrightarrow> (\<exists>t. Some t \<in> set xs \<and> f t = y)"
proof
  assume "Some y \<in> set (map (map_option f) xs)"
  then have "Some y \<in> map_option f ` set xs" by simp
  then obtain x where x: "Some y = map_option f x" "x \<in> set xs" by (rule imageE)
  then obtain t where "x = Some t" "f t = y" by (cases x) auto
  with x show "\<exists>t. Some t \<in> set xs \<and> f t = y" by blast
next
  assume "\<exists>t. Some t \<in> set xs \<and> f t = y"
  then obtain t where t: "Some t \<in> set xs" "f t = y" by blast
  have "map_option f (Some t) \<in> map_option f ` set xs" using t(1) by (rule imageI)
  then show "Some y \<in> set (map (map_option f) xs)" using t(2) by simp
qed

lemma upto_unique:
  assumes "sorted_wrt (<) ks" "set ks = {lo..hi}"
  shows "ks = [lo..hi]"
proof -
  have "sorted ks" "distinct ks" using assms(1) by (simp_all add: strict_sorted_iff)
  moreover have "sorted [lo..hi]" "distinct [lo..hi]" by simp_all
  moreover have "set ks = set [lo..hi]" using assms(2) by simp
  ultimately show ?thesis by (metis sorted_distinct_set_unique)
qed

lemma run_1900:
  "\<exists>files' out. process_data iso_to_datetime (tables_of global_1900) = (files', Inr out)"
proof -
  have "\<not> isl (snd (process_data iso_to_datetime (tables_of global_1900)))"
    by code_simp
  moreover obtain a b where ab: "process_data iso_to_datetime (tables_of global_1900) = (a, b)"
    by (cases "process_data iso_to_datetime (tables_of global_1900)")
  ultimately obtain out where "b = Inr out" by (cases b) auto
  with ab show ?thesis by blast
qed

section \<open>What process_data changes and how it fails\<close>

lemma annotate_frame:
  assumes "annotate to_datetime t = Inr t'" "c \<noteq> ''dt''" "c \<noteq> ''Year''"
  shows "map_of t' c = map_of t c"
  using annotate_columns [OF assms(1)] assms(2,3) by auto

lemma annotate_Inl:
  assumes "annotate to_datetime t = Inl e"
  shows "(e = KeyError ''dt'' \<and> map_of t ''dt'' = None) \<or>
         (e = ParserError \<and> (\<exists>col. map_of t ''dt'' = Some col \<and> to_datetime col = None))"
  using assms by (auto simp: annotate_def split: option.splits)

lemma mean_columns_present:
  assumes "map_of df c = Some col" "numeric_values col = Some xs" "c \<noteq> ''Year''"
  shows "map_of (mean_columns labels keys df) c \<noteq> None"
  using assms(1)
proof (induction df)
  case Nil
  then show ?case by simp
next
  case (Cons p df)
  obtain c' col' where p: "p = (c', col')" by (cases p)
  show ?case
  proof (cases "c' = c")
    case True
    with Cons.prems have "col' = col" by (simp add: p)
    with True assms(2,3) show ?thesis by (simp add: p mean_columns_Cons)
  next
    case False
    with Cons.prems have "map_of df c = Some col" by (simp add: p)
    then have "map_of (mean_columns labels keys df) c \<noteq> None" by (rule Cons.IH)
    with False show ?thesis by (simp add: p mean_columns_Cons split: option.split)
  qed
qed

lemma global_summary_Inl:
  assumes an: "annotate to_datetime g = Inr g'" and gs: "global_summary g' = Inl e"
  shows "e = KeyError ''LandAverageTemperature'' \<and>
         \<not> (\<exists>col xs. map_of g ''LandAverageTemperature'' = Some col \<and> numeric_values col = Some xs)"
proof -
  from annotate_columns [OF an] obtain ts where
    m: "map_of g' = (map_of g)(''dt'' \<mapsto> Datetime64 ts, ''Year'' \<mapsto> dt_year ts)" by blast
  let ?ys = "map (map_option year) ts"
  let ?m = "mean_columns ?ys (group_keys ?ys) g'"
  have yr: "map_of g' ''Year'' = Some (Int64 ?ys)" by (simp add: m dt_year_def)
  have lat: "map_of g' ''LandAverageTemperature'' = map_of g ''LandAverageTemperature''"
    by (simp add: m)
  have e: "e = KeyError ''LandAverageTemperature'' \<and> map_of ?m ''LandAverageTemperature'' = None"
  proof (cases "map_of ?m ''LandAverageTemperature''")
    case None
    with gs yr show ?thesis
      by (simp add: global_summary_def groupby_year_mean_def getitem_def)
  next
    case (Some col)
    then obtain xs where "col = Float64 xs" using mean_columns_group_mean by blast
    with gs yr Some show ?thesis
      by (simp add: global_summary_def groupby_year_mean_def getitem_def rolling_mean_def)
  qed
  have "False" if "map_of g ''LandAverageTemperature'' = Some col" "numeric_values col = Some xs"
    for col xs
  proof -
    from that lat have "map_of g' ''LandAverageTemperature'' = Some col" by simp
    from mean_columns_present [OF this that(2), of ?ys "group_keys ?ys"] e show False by simp
  qed
  with e show ?thesis by blast
qed


lemma process_data_frame:
  assumes "process_data to_datetime data_files = (files', result)"
  shows "files' n = data_files n \<or>
         (n \<in> {GLOBAL, BY_COUNTRY, BY_CITY} \<and>
          (\<exists>t t'. data_files n = Some t \<and> annotate to_datetime t = Inr t' \<and> files' n = Some t'))"
  using assms
  by (auto simp: process_data_def Let_def split: option.splits sum.splits if_splits)

lemma process_data_Inl:
  assumes "process_data to_datetime data_files = (files', Inl e)"
  shows "(\<exists>n \<in> {GLOBAL, BY_COUNTRY, BY_CITY}. data_files n = None \<and> e = KeyError n) \<or>
         (\<exists>n \<in> {GLOBAL, BY_COUNTRY, BY_CITY}. \<exists>t. data_files n = Some t \<and> annotate to_datetime t = Inl e) \<or>
         (\<exists>g g'. data_files GLOBAL = Some g \<and> annotate to_datetime g = Inr g' \<and> global_summary g' = Inl e)"
  using assms
  by (auto simp: process_data_def Let_def split: option.splits sum.splits if_splits)

lemma run_malformed:
  "process_data iso_to_datetime (tables_of global_malformed) =
     (tables_of global_malformed, Inl ParserError)"
proof -
  have a: "annotate iso_to_datetime global_malformed = Inl ParserError" by code_simp
  have g: "tables_of global_malformed GLOBAL = Some global_malformed" by (simp add: tables_of_def)
  show ?thesis by (simp add: process_data_def g a)
qed

section \<open>The download, the extraction and the cache files\<close>

lemma bytes_received_0: "bytes_received (c # cs) 0 = length c"
  by (simp add: bytes_received_def)

lemma bytes_received_Suc: "bytes_received (c # cs) (Suc i) = length c + bytes_received cs i"
  by (simp add: bytes_received_def)

lemma download_loop_reports:
  assumes "0 < tsize" "0 \<le> d"
  shows "download_loop tsize cs (d, pg, buf) =
     (pg @ map (\<lambda>i. Progress (min (real_of_int (d + int (bytes_received cs i)) / real_of_int tsize) 1))
            [0..<length cs],
      Inr (buf @ concat cs))"
  using assms(2)
proof (induction cs arbitrary: d pg buf)
  case Nil
  show ?case by simp
next
  case (Cons c cs)
  let ?d = "d + int (length c)"
  have d': "0 \<le> ?d" using Cons.prems by simp
  have nz: "tsize \<noteq> 0" using assms(1) by simp
  have q: "0 \<le> real_of_int ?d / real_of_int tsize" using d' assms(1) by simp
  have ok: "0 \<le> min (real_of_int ?d / real_of_int tsize) 1 \<and>
            min (real_of_int ?d / real_of_int tsize) 1 \<le> 1" using q by simp
  have step: "download_loop tsize (c # cs) (d, pg, buf) =
      download_loop tsize cs
        (?d, pg @ [Progress (min (real_of_int ?d / real_of_int tsize) 1)], buf @ c)"
    using nz ok by (simp add: Let_def)
  have m: "map (\<lambda>i. Progress (min (real_of_int (d + int (bytes_received (c # cs) i)) / real_of_int tsize) 1))
             [0..<length (c # cs)] =
           Progress (min (real_of_int ?d / real_of_int tsize) 1) #
           map (\<lambda>i. Progress (min (real_of_int (?d + int (bytes_received cs i)) / real_of_int tsize) 1))
             [0..<length cs]"
    by (simp add: map_upt_Suc bytes_received_0 bytes_received_Suc add.assoc del: upt_Suc)
  show ?case
    by (simp only: step Cons.IH [OF d'] m) simp
qed

lemma download_loop_buffer:
  "download_loop tsize cs (d, pg, buf) = (pg', Inr b) \<Longrightarrow> b = buf @ concat cs"
proof (induction cs arbitrary: d pg buf)
  case Nil
  then show ?case by simp
next
  case (Cons c cs)
  from Cons.prems obtain d' pg2 where
    "download_loop tsize cs (d', pg2, buf @ c) = (pg', Inr b)"
    by (auto simp: Let_def split: if_splits)
  from Cons.IH [OF this] show ?case by simp
qed

lemma fetch_archive_Inr:
  assumes "fetch_archive env w = (w3, Inr z)"
  shows "\<exists>r. http_get env DATA_URL = Some r \<and> status_ok r \<and>
           open_zip env (concat (chunks r)) = Some z \<and>
           files w3 = files w \<and> requests w3 = requests w @ [DATA_URL]"
proof -
  from assms obtain r where r: "http_get env DATA_URL = Some r" "status_ok r"
    by (auto simp: fetch_archive_def Let_def split: option.splits if_splits)
  from assms r obtain n where n: "content_length env r = Some n"
    by (auto simp: fetch_archive_def Let_def split: option.splits)
  obtain pg res where dl: "download_loop n (chunks r) (0, page w @ [Progress 0], []) = (pg, res)"
    by (cases "download_loop n (chunks r) (0, page w @ [Progress 0], [])")
  from assms r n dl obtain b where b: "res = Inr b"
    by (cases res) (auto simp: fetch_archive_def Let_def)
  from dl b have "b = concat (chunks r)" using download_loop_buffer by fastforce
  with assms r n dl b show ?thesis
    by (auto simp: fetch_archive_def Let_def split: option.splits)
qed

lemma fetch_archive_files: "files (fst (fetch_archive env w)) = files w"
  by (auto simp: fetch_archive_def Let_def split: option.splits prod.splits sum.splits)

lemma fetch_archive_page:
  assumes "http_get env DATA_URL = Some r" "status_ok r" "content_length env r = Some n" "0 < n"
  shows "page (fst (fetch_archive env w)) =
     page w @ Progress 0 #
       map (\<lambda>i. Progress (min (real (bytes_received (chunks r) i) / real_of_int n) 1))
         [0..<length (chunks r)] @ [ProgressEmpty]"
proof -
  have dl: "download_loop n (chunks r) (0, page w @ [Progress 0], []) =
     ((page w @ [Progress 0]) @ map (\<lambda>i. Progress (min (real_of_int (0 + int (bytes_received (chunks r) i)) / real_of_int n) 1))
            [0..<length (chunks r)],
      Inr ([] @ concat (chunks r)))"
    by (rule download_loop_reports [OF assms(4)]) simp
  show ?thesis
    using assms(1-3) by (simp add: fetch_archive_def Let_def dl split: option.splits)
qed

lemma keys_update_present:
  "k \<in> set (map fst al) \<Longrightarrow> map fst (AList.update k v al) = map fst al"
  by (simp add: update_keys)

lemma extract_all_page:
  "extract_all env z fs (req, pg) = (pg', res) \<Longrightarrow> \<exists>rest. pg' = pg @ rest"
proof (induction fs arbitrary: req pg)
  case Nil
  then show ?case by simp
next
  case (Cons f fs)
  show ?case
  proof (cases "z f")
    case None
    with Cons.prems have "extract_all env z fs (req, pg @ [Error (''Missing file in ZIP: '' @ f)]) = (pg', res)"
      by simp
    from Cons.IH [OF this] show ?thesis by auto
  next
    case (Some b)
    show ?thesis
    proof (cases "read_csv env b")
      case None
      with Some Cons.prems show ?thesis by simp
    next
      case (Some df)
      with \<open>z f = Some b\<close> Cons.prems
      have "extract_all env z fs (AList.update f (Some df) req, pg) = (pg', res)" by simp
      from Cons.IH [OF this] show ?thesis .
    qed
  qed
qed

lemma extract_all_Inl:
  "extract_all env z fs (req, pg) = (pg', Inl e) \<Longrightarrow>
     e = ParserError \<and> (\<exists>f\<in>set fs. \<exists>b. z f = Some b \<and> read_csv env b = None)"
proof (induction fs arbitrary: req pg)
  case Nil
  then show ?case by simp
next
  case (Cons f fs)
  show ?case
  proof (cases "z f")
    case None
    with Cons.prems have "extract_all env z fs (req, pg @ [Error (''Missing file in ZIP: '' @ f)]) = (pg', Inl e)"
      by simp
    from Cons.IH [OF this] show ?thesis by auto
  next
    case (Some b)
    show ?thesis
    proof (cases "read_csv env b")
      case None
      with Some Cons.prems show ?thesis by simp
    next
      case (Some df)
      with \<open>z f = Some b\<close> Cons.prems
      have "extract_all env z fs (AList.update f (Some df) req, pg) = (pg', Inl e)" by simp
      from Cons.IH [OF this] show ?thesis by auto
    qed
  qed
qed

lemma extract_all_Inr:
  assumes "extract_all env z fs (req, pg) = (pg', Inr req')" "set fs \<subseteq> set (map fst req)"
  shows "map fst req' = map fst req \<and>
         (\<forall>f\<in>set fs. \<forall>b. z f = Some b \<longrightarrow> read_csv env b \<noteq> None) \<and>
         (\<forall>f. map_of req' f =
            (if f \<in> set fs then (case z f of None \<Rightarrow> map_of req f | Some b \<Rightarrow> Some (read_csv env b))
             else map_of req f))"
  using assms
proof (induction fs arbitrary: req pg)
  case Nil
  then show ?case by simp
next
  case (Cons g fs)
  from Cons.prems(2) have sub: "set fs \<subseteq> set (map fst req)" and gin: "g \<in> set (map fst req)"
    by auto
  show ?case
  proof (cases "z g")
    case None
    with Cons.prems have "extract_all env z fs (req, pg @ [Error (''Missing file in ZIP: '' @ g)]) = (pg', Inr req')"
      by simp
    from Cons.IH [OF this sub] None show ?thesis by auto
  next
    case (Some b)
    show ?thesis
    proof (cases "read_csv env b")
      case None
      with Some Cons.prems show ?thesis by simp
    next
      case (Some df)
      let ?req = "AList.update g (Some df) req"
      from Some \<open>z g = Some b\<close> Cons.prems
      have run: "extract_all env z fs (?req, pg) = (pg', Inr req')" by simp
      have keys: "map fst ?req = map fst req" using gin by (rule keys_update_present)
      from sub keys have sub': "set fs \<subseteq> set (map fst ?req)" by simp
      have m: "map_of ?req = (map_of req)(g \<mapsto> Some df)" by (rule update_conv')
      from Cons.IH [OF run sub'] keys m Some \<open>z g = Some b\<close> show ?thesis
        by (auto split: option.splits)
    qed
  qed
qed

lemma save_all_lookup:
  "distinct (map fst req) \<Longrightarrow>
   save_all env req fs f =
     (if fs f = None
      then (case map_of req f of Some (Some d) \<Rightarrow> Some (to_csv env d) | _ \<Rightarrow> None)
      else fs f)"
proof (induction req arbitrary: fs)
  case Nil
  show ?case by simp
next
  case (Cons p req)
  obtain g df where p: "p = (g, df)" by (cases p)
  from Cons.prems have d: "distinct (map fst req)" and notin: "g \<notin> fst ` set req" by (auto simp: p)
  have none: "map_of req g = None" using notin by (simp add: map_of_eq_None_iff)
  note IH = Cons.IH [OF d]
  show ?case
  proof (cases df)
    case None
    then show ?thesis using none by (simp add: p IH)
  next
    case (Some d)
    then show ?thesis using none by (auto simp: p IH)
  qed
qed

lemma cached_outcome:
  assumes "all_exist w"
  shows "get_climate_data env w =
     (w, case (loaded env w GLOBAL, loaded env w BY_COUNTRY, loaded env w BY_CITY) of
           (Some g, Some c, Some ci) \<Rightarrow>
             Returned [(GLOBAL, Some g), (BY_COUNTRY, Some c), (BY_CITY, Some ci)]
         | _ \<Rightarrow> Raised ParserError)"
proof -
  from assms obtain bg bc bci where
    b: "files w GLOBAL = Some bg" "files w BY_COUNTRY = Some bc" "files w BY_CITY = Some bci"
    by (auto simp: all_exist_def required_files_def)
  have l: "loaded env w GLOBAL = read_csv env bg" "loaded env w BY_COUNTRY = read_csv env bc"
    "loaded env w BY_CITY = read_csv env bci"
    using assms b by (simp_all add: loaded_def)
  show ?thesis
    using assms b
    by (simp add: get_climate_data_def required_files_def l split: option.splits)
qed

lemma all_exist_cached: "all_exist cached_world"
  by (simp add: all_exist_def required_files_def cached_world_def)

lemma not_all_exist_empty: "\<not> all_exist empty_world"
  by (simp add: all_exist_def required_files_def empty_world_def)

lemma keys_required: "map fst required_files = [GLOBAL, BY_COUNTRY, BY_CITY]"
  by (simp add: required_files_def)

lemma map_of_required:
  "map_of required_files f = (if f \<in> set (map fst required_files) then Some None else None)"
  by (simp add: required_files_def)

lemma members_parse_iff:
  "members_parse env z \<longleftrightarrow>
     (\<forall>f\<in>set (map fst required_files). \<forall>b. z f = Some b \<longrightarrow> read_csv env b \<noteq> None)"
  unfolding members_parse_def list_all_iff
  by (auto split: option.splits)

lemma loaded_download:
  assumes "\<not> all_exist w" "fetch_archive env w = (w3, Inr z)"
  shows "loaded env w f = Option.bind (z f) (read_csv env)"
proof -
  from fetch_archive_Inr [OF assms(2)] obtain r where
    "http_get env DATA_URL = Some r" "status_ok r" "open_zip env (concat (chunks r)) = Some z"
    by blast
  with assms(1) show ?thesis by (simp add: loaded_def)
qed

lemma returned_complete:
  assumes "snd (get_climate_data env w) = Returned req"
  shows "map fst req = map fst required_files \<and>
         (\<forall>f\<in>set (map fst required_files). \<exists>df. map_of req f = Some (Some df) \<and> loaded env w f = Some df)"
proof (cases "all_exist w")
  case True
  from assms cached_outcome [OF True, of env]
  obtain g c ci where l: "loaded env w GLOBAL = Some g" "loaded env w BY_COUNTRY = Some c"
      "loaded env w BY_CITY = Some ci"
    and req: "req = [(GLOBAL, Some g), (BY_COUNTRY, Some c), (BY_CITY, Some ci)]"
    by (auto split: option.splits)
  show ?thesis by (simp add: req l keys_required)
next
  case False
  obtain w3 res where f: "fetch_archive env w = (w3, res)" by (cases "fetch_archive env w")
  from assms False f obtain z where z: "res = Inr z"
    by (cases res) (auto simp: get_climate_data_def)
  obtain pg' r2 where x: "extract_all env z (map fst required_files) (required_files, page w3) = (pg', r2)"
    by (cases "extract_all env z (map fst required_files) (required_files, page w3)")
  from assms False f z x have r2: "r2 = Inr req" and full: "list_all (\<lambda>df. df \<noteq> None) (map snd req)"
    by (cases r2; auto simp: get_climate_data_def Let_def split: if_splits)+
  from extract_all_Inr [OF x [unfolded r2]]
  have keys: "map fst req = map fst required_files"
    and parse: "\<forall>f\<in>set (map fst required_files). \<forall>b. z f = Some b \<longrightarrow> read_csv env b \<noteq> None"
    and look: "\<And>f. map_of req f =
        (if f \<in> set (map fst required_files)
         then (case z f of None \<Rightarrow> map_of required_files f | Some b \<Rightarrow> Some (read_csv env b))
         else map_of required_files f)"
    by auto
  have some: "v \<noteq> None" if "map_of req f = Some v" for f v
  proof -
    from that have "(f, v) \<in> set req" by (rule map_of_SomeD)
    with full show ?thesis unfolding list_all_iff by force
  qed
  have "\<exists>df. map_of req f = Some (Some df) \<and> loaded env w f = Some df"
    if fin: "f \<in> set (map fst required_files)" for f
  proof (cases "z f")
    case None
    with look [of f] fin have "map_of req f = Some None" by (simp add: map_of_required)
    from some [OF this] show ?thesis by simp
  next
    case (Some b)
    with parse fin obtain df where df: "read_csv env b = Some df" by auto
    from look [of f] fin Some df have "map_of req f = Some (Some df)" by simp
    moreover have "loaded env w f = Some df"
      using loaded_download [OF False f [unfolded z], of f] Some df by simp
    ultimately show ?thesis by blast
  qed
  with keys show ?thesis by blast
qed

lemma not_all_exist_partial: "\<not> all_exist partial_world"
  by (simp add: all_exist_def required_files_def partial_world_def)

section \<open>The yearly summary\<close>

text \<open>
  Claim C1. When \<open>process_data\<close> returns, the column \<^verbatim>\<open>10Y_MA\<close> of the yearly summary has one
  cell per year row, in the increasing order of the years. The cell is undefined in the
  first nine rows. In every later row it is the arithmetic mean of the ten yearly means of
  \<^verbatim>\<open>LandAverageTemperature\<close> that end at that row, one tenth of their sum; that mean is
  undefined when one of the ten yearly means is.
\<close>

theorem moving_average_is_trailing_mean:
  assumes "snd (process_data to_datetime data_files) = Inr out"
  shows "\<exists>gy ks ys ma.
           out ''global_yearly'' = Some gy \<and>
           map_of gy ''Year'' = Some (Int64 (map Some ks)) \<and> sorted_wrt (<) ks \<and>
           map_of gy ''LandAverageTemperature'' = Some (Float64 ys) \<and>
           map_of gy ''10Y_MA'' = Some (Float64 ma) \<and>
           length ys = length ks \<and> length ma = length ks \<and>
           (\<forall>i<length ks. ma ! i =
              (if i < 9 then None
               else if \<forall>j\<in>{i - 9..i}. ys ! j \<noteq> None
                    then Some ((\<Sum>j = i - 9..i. the (ys ! j)) / 10)
                    else None))"
proof -
  obtain files' where "process_data to_datetime data_files = (files', Inr out)"
    using assms by (cases "process_data to_datetime data_files") simp
  then obtain g' gy where gs: "global_summary g' = Inr gy" and out: "out ''global_yearly'' = Some gy"
    by (rule process_data_Inr) simp
  from gs obtain labels lat where
    lat: "map_of (mean_columns labels (group_keys labels) g') ''LandAverageTemperature'' = Some (Float64 lat)" and
    gy: "gy = setitem ((''Year'', Int64 (map Some (group_keys labels))) # mean_columns labels (group_keys labels) g')
            ''10Y_MA'' (Float64 (roll_mean 10 10 lat))"
    by (rule global_summary_Inr)
  let ?ks = "group_keys labels"
  from lat obtain xs where "Float64 lat = Float64 (group_mean labels xs ?ks)"
    using mean_columns_group_mean by blast
  then have len: "length lat = length ?ks" by (simp add: length_group_mean)
  have 1: "map_of gy ''Year'' = Some (Int64 (map Some ?ks))" by (simp add: gy map_of_setitem)
  have 2: "map_of gy ''LandAverageTemperature'' = Some (Float64 lat)"
    by (simp add: gy map_of_setitem lat)
  have 3: "map_of gy ''10Y_MA'' = Some (Float64 (roll_mean 10 10 lat))"
    by (simp add: gy map_of_setitem)
  have 4: "length (roll_mean 10 10 lat) = length ?ks" by (simp add: length_roll_mean len)
  have 5: "\<forall>i<length ?ks. roll_mean 10 10 lat ! i =
              (if i < 9 then None
               else if \<forall>j\<in>{i - 9..i}. lat ! j \<noteq> None
                    then Some ((\<Sum>j = i - 9..i. the (lat ! j)) / 10)
                    else None)"
    using roll_mean_10_nth [of _ lat] len by simp
  from out 1 2 3 4 5 len group_keys_strict [of labels] show ?thesis by blast
qed

theorem moving_average_is_trailing_mean_witness:
  "(\<exists>out. snd (process_data iso_to_datetime (tables_of global_decade)) = Inr out \<and>
      (\<exists>gy ks ys ma.
           out ''global_yearly'' = Some gy \<and>
           map_of gy ''Year'' = Some (Int64 (map Some ks)) \<and> sorted_wrt (<) ks \<and>
           map_of gy ''LandAverageTemperature'' = Some (Float64 ys) \<and>
           map_of gy ''10Y_MA'' = Some (Float64 ma) \<and>
           length ys = length ks \<and> length ma = length ks \<and>
           (\<forall>i<length ks. ma ! i =
              (if i < 9 then None
               else if \<forall>j\<in>{i - 9..i}. ys ! j \<noteq> None
                    then Some ((\<Sum>j = i - 9..i. the (ys ! j)) / 10)
                    else None)))) \<and>
   summary_of iso_to_datetime (tables_of global_decade) =
     Some [(''Year'', Int64 [Some 2000, Some 2001, Some 2002, Some 2003, Some 2004, Some 2005,
                            Some 2006, Some 2007, Some 2008, Some 2009, Some 2010, Some 2011]),
           (''LandAverageTemperature'',
              Float64 [Some 1, Some 2, Some 3, Some 4, Some 5, Some 6, Some 7, Some 8, Some 9,
                       Some 10, None, Some 12]),
           (''10Y_MA'',
              Float64 [None, None, None, None, None, None, None, None, None, Some (11 / 2),
                       None, None])]"
proof -
  have "\<not> isl (snd (process_data iso_to_datetime (tables_of global_decade)))"
    by code_simp
  then obtain out where h: "snd (process_data iso_to_datetime (tables_of global_decade)) = Inr out"
    by (cases "snd (process_data iso_to_datetime (tables_of global_decade))") auto
  have e: "summary_of iso_to_datetime (tables_of global_decade) =
     Some [(''Year'', Int64 [Some 2000, Some 2001, Some 2002, Some 2003, Some 2004, Some 2005,
                            Some 2006, Some 2007, Some 2008, Some 2009, Some 2010, Some 2011]),
           (''LandAverageTemperature'',
              Float64 [Some 1, Some 2, Some 3, Some 4, Some 5, Some 6, Some 7, Some 8, Some 9,
                       Some 10, None, Some 12]),
           (''10Y_MA'',
              Float64 [None, None, None, None, None, None, None, None, None, Some (11 / 2),
                       None, None])]"
    by code_simp
  from moving_average_is_trailing_mean [OF h] h e show ?thesis by blast
qed

text \<open>
  Claim C10. When \<open>process_data\<close> returns, the years of the rows of the yearly summary are
  strictly increasing, so no year has two rows.
\<close>

theorem years_strictly_increasing:
  assumes "snd (process_data to_datetime data_files) = Inr out"
  shows "\<exists>gy ks. out ''global_yearly'' = Some gy \<and>
           map_of gy ''Year'' = Some (Int64 (map Some ks)) \<and>
           sorted_wrt (<) ks \<and> distinct ks"
proof -
  obtain files' where "process_data to_datetime data_files = (files', Inr out)"
    using assms by (cases "process_data to_datetime data_files") simp
  then obtain g' gy where gs: "global_summary g' = Inr gy" and out: "out ''global_yearly'' = Some gy"
    by (rule process_data_Inr) simp
  from summary_columns [OF gs] obtain ys where
    "map_of gy ''Year'' = Some (Int64 (map Some (group_keys ys)))" by auto
  moreover have "sorted_wrt (<) (group_keys ys)" by (rule group_keys_strict)
  moreover have "distinct (group_keys ys)" by (simp add: group_keys_def)
  ultimately show ?thesis using out by blast
qed

theorem years_strictly_increasing_witness:
  "\<exists>out. snd (process_data iso_to_datetime (tables_of global_1900)) = Inr out \<and>
     (\<exists>gy ks. out ''global_yearly'' = Some gy \<and>
           map_of gy ''Year'' = Some (Int64 (map Some ks)) \<and>
           sorted_wrt (<) ks \<and> distinct ks)"
proof -
  have "\<not> isl (snd (process_data iso_to_datetime (tables_of global_1900)))"
    by code_simp
  then obtain out where h: "snd (process_data iso_to_datetime (tables_of global_1900)) = Inr out"
    by (cases "snd (process_data iso_to_datetime (tables_of global_1900))") auto
  from years_strictly_increasing [OF h] h show ?thesis by blast
qed

text \<open>
  Claim C2. When \<open>process_data\<close> returns, the yearly summary has one row per year that
  occurs in the parsed dates of the global table, and every numeric column of the table
  (other than the columns \<^verbatim>\<open>Year\<close> and \<^verbatim>\<open>10Y_MA\<close>, which the aggregator itself defines) is in
  the summary with, in the row of a year, the arithmetic mean of its valid cells over the
  records of that year: the sum divided by the number, not the sum, and undefined when the
  year has no valid cell. Columns that are not numeric, the dates among them, are not in
  the summary. The witness is the table with 10 and 20 in 1900 and 30 in 1901: the mean
  of 1900 is 15.
\<close>

theorem yearly_means_by_group:
  assumes "process_data to_datetime data_files = (files', Inr out)"
    and "data_files GLOBAL = Some g"
    and "distinct (map fst g)"
  shows "\<exists>col ts gy.
           map_of g ''dt'' = Some col \<and> to_datetime col = Some ts \<and>
           out ''global_yearly'' = Some gy \<and>
           map_of gy ''Year'' = Some (Int64 (map Some (group_keys (map (map_option year) ts)))) \<and>
           set (group_keys (map (map_option year) ts)) = {y. \<exists>t. Some t \<in> set ts \<and> year t = y} \<and>
           map_of gy ''dt'' = None \<and>
           (\<forall>c. c \<notin> {''dt'', ''Year'', ''10Y_MA''} \<longrightarrow>
              map_of gy c =
                (case map_of g c of
                   None \<Rightarrow> None
                 | Some cells \<Rightarrow>
                     (case numeric_values cells of
                        None \<Rightarrow> None
                      | Some xs \<Rightarrow>
                          Some (Float64 (map (\<lambda>k. arithmetic_mean
                                                (group_values (map (map_option year) ts) xs k))
                                          (group_keys (map (map_option year) ts)))))))"
proof -
  from assms(1,2) obtain col ts gy where col: "map_of g ''dt'' = Some col"
    and ts: "to_datetime col = Some ts" and out: "out ''global_yearly'' = Some gy"
    and gy: "map_of gy = (map_of (mean_columns (map (map_option year) ts) (group_keys (map (map_option year) ts))
                    (setitem (setitem g ''dt'' (Datetime64 ts)) ''Year'' (dt_year ts))))
              (''Year'' \<mapsto> Int64 (map Some (group_keys (map (map_option year) ts))),
               ''10Y_MA'' \<mapsto> Float64 (roll_mean 10 10
                  (case map_of (mean_columns (map (map_option year) ts) (group_keys (map (map_option year) ts))
                         (setitem (setitem g ''dt'' (Datetime64 ts)) ''Year'' (dt_year ts)))
                        ''LandAverageTemperature'' of
                     Some (Float64 lat) \<Rightarrow> lat | _ \<Rightarrow> [])))"
    by (rule summary_of_source)
  let ?ys = "map (map_option year) ts"
  let ?g' = "setitem (setitem g ''dt'' (Datetime64 ts)) ''Year'' (dt_year ts)"
  have d: "distinct (map fst ?g')" using assms(3) by (simp add: distinct_setitem)
  have mc: "map_of (mean_columns ?ys (group_keys ?ys) ?g') c =
     (if c = ''Year'' then None
      else case map_of ?g' c of
             None \<Rightarrow> None
           | Some cells \<Rightarrow> map_option (\<lambda>xs. Float64 (group_mean ?ys xs (group_keys ?ys))) (numeric_values cells))"
    for c by (rule map_of_mean_columns [OF d])
  have 1: "map_of gy ''Year'' = Some (Int64 (map Some (group_keys ?ys)))" by (simp add: gy)
  have 2: "set (group_keys ?ys) = {y. \<exists>t. Some t \<in> set ts \<and> year t = y}"
    using Some_in_map_option [of _ year ts] by (simp only: set_group_keys)
  have 3: "map_of gy ''dt'' = None" by (simp add: gy mc map_of_setitem)
  have 4: "map_of gy c =
                (case map_of g c of
                   None \<Rightarrow> None
                 | Some cells \<Rightarrow>
                     (case numeric_values cells of
                        None \<Rightarrow> None
                      | Some xs \<Rightarrow>
                          Some (Float64 (map (\<lambda>k. arithmetic_mean (group_values ?ys xs k))
                                          (group_keys ?ys)))))"
    if "c \<notin> {''dt'', ''Year'', ''10Y_MA''}" for c
    using that by (simp add: gy mc map_of_setitem group_mean_arithmetic split: option.split)
  show ?thesis
    apply (rule exI [of _ col], rule exI [of _ ts], rule exI [of _ gy])
    using col ts out 1 2 3 4 apply (intro conjI allI impI)
          apply assumption+
    done
qed

theorem yearly_means_by_group_witness:
  "(\<exists>files' out.
     process_data iso_to_datetime (tables_of global_1900) = (files', Inr out) \<and>
     tables_of global_1900 GLOBAL = Some global_1900 \<and>
     distinct (map fst global_1900) \<and>
     (\<exists>col ts gy.
           map_of global_1900 ''dt'' = Some col \<and> iso_to_datetime col = Some ts \<and>
           out ''global_yearly'' = Some gy \<and>
           map_of gy ''Year'' = Some (Int64 (map Some (group_keys (map (map_option year) ts)))) \<and>
           set (group_keys (map (map_option year) ts)) = {y. \<exists>t. Some t \<in> set ts \<and> year t = y} \<and>
           map_of gy ''dt'' = None \<and>
           (\<forall>c. c \<notin> {''dt'', ''Year'', ''10Y_MA''} \<longrightarrow>
              map_of gy c =
                (case map_of global_1900 c of
                   None \<Rightarrow> None
                 | Some cells \<Rightarrow>
                     (case numeric_values cells of
                        None \<Rightarrow> None
                      | Some xs \<Rightarrow>
                          Some (Float64 (map (\<lambda>k. arithmetic_mean
                                                (group_values (map (map_option year) ts) xs k))
                                          (group_keys (map (map_option year) ts))))))))) \<and>
   summary_of iso_to_datetime (tables_of global_1900) =
     Some [(''Year'', Int64 [Some 1900, Some 1901, Some 1903]),
           (''LandAverageTemperature'', Float64 [Some 15, Some 30, None]),
           (''10Y_MA'', Float64 [None, None, None])]"
proof -
  from run_1900 obtain files' out where
    h: "process_data iso_to_datetime (tables_of global_1900) = (files', Inr out)" by blast
  have g: "tables_of global_1900 GLOBAL = Some global_1900" by (simp add: tables_of_def)
  have d: "distinct (map fst global_1900)" by (simp add: global_1900_def)
  have e: "summary_of iso_to_datetime (tables_of global_1900) =
     Some [(''Year'', Int64 [Some 1900, Some 1901, Some 1903]),
           (''LandAverageTemperature'', Float64 [Some 15, Some 30, None]),
           (''10Y_MA'', Float64 [None, None, None])]"
    by code_simp
  note c = yearly_means_by_group [OF h g d]
  have "\<exists>files' out.
     process_data iso_to_datetime (tables_of global_1900) = (files', Inr out) \<and>
     tables_of global_1900 GLOBAL = Some global_1900 \<and>
     distinct (map fst global_1900) \<and>
     (\<exists>col ts gy.
           map_of global_1900 ''dt'' = Some col \<and> iso_to_datetime col = Some ts \<and>
           out ''global_yearly'' = Some gy \<and>
           map_of gy ''Year'' = Some (Int64 (map Some (group_keys (map (map_option year) ts)))) \<and>
           set (group_keys (map (map_option year) ts)) = {y. \<exists>t. Some t \<in> set ts \<and> year t = y} \<and>
           map_of gy ''dt'' = None \<and>
           (\<forall>c. c \<notin> {''dt'', ''Year'', ''10Y_MA''} \<longrightarrow>
              map_of gy c =
                (case map_of global_1900 c of
                   None \<Rightarrow> None
                 | Some cells \<Rightarrow>
                     (case numeric_values cells of
                        None \<Rightarrow> None
                      | Some xs \<Rightarrow>
                          Some (Float64 (map (\<lambda>k. arithmetic_mean
                                                (group_values (map (map_option year) ts) xs k))
                                          (group_keys (map (map_option year) ts))))))))"
    by (rule exI [of _ files'], rule exI [of _ out], intro conjI, rule h, rule g, rule d, rule c)
  then show ?thesis using e by (rule conjI)
qed

text \<open>
  Claim C8, as amended. The years of the rows of the yearly summary are exactly the years
  that occur in the parsed dates of the source records, each once. They form the integer
  range from \<open>lo\<close> to \<open>hi\<close> when the years of the source are exactly that range; a year
  of the range that has no source record has no row. As stated (the rows always cover the
  whole range from the first year to the last) the claim fails: the source with records
  in 1900, 1901 and 1903 has no row for 1902.
\<close>

theorem summary_years_are_source_years:
  assumes "process_data to_datetime data_files = (files', Inr out)"
    and "data_files GLOBAL = Some g"
  shows "\<exists>col ts gy ks.
           map_of g ''dt'' = Some col \<and> to_datetime col = Some ts \<and>
           out ''global_yearly'' = Some gy \<and>
           map_of gy ''Year'' = Some (Int64 (map Some ks)) \<and>
           set ks = {y. \<exists>t. Some t \<in> set ts \<and> year t = y} \<and>
           (\<forall>lo hi. {y. \<exists>t. Some t \<in> set ts \<and> year t = y} = {lo..hi} \<longrightarrow> ks = [lo..hi])"
proof -
  from assms obtain col ts gy where col: "map_of g ''dt'' = Some col"
    and ts: "to_datetime col = Some ts" and out: "out ''global_yearly'' = Some gy"
    and gy: "map_of gy = (map_of (mean_columns (map (map_option year) ts) (group_keys (map (map_option year) ts))
                    (setitem (setitem g ''dt'' (Datetime64 ts)) ''Year'' (dt_year ts))))
              (''Year'' \<mapsto> Int64 (map Some (group_keys (map (map_option year) ts))),
               ''10Y_MA'' \<mapsto> Float64 (roll_mean 10 10
                  (case map_of (mean_columns (map (map_option year) ts) (group_keys (map (map_option year) ts))
                         (setitem (setitem g ''dt'' (Datetime64 ts)) ''Year'' (dt_year ts)))
                        ''LandAverageTemperature'' of
                     Some (Float64 lat) \<Rightarrow> lat | _ \<Rightarrow> [])))"
    by (rule summary_of_source)
  let ?ks = "group_keys (map (map_option year) ts)"
  have 1: "map_of gy ''Year'' = Some (Int64 (map Some ?ks))" by (simp add: gy)
  have 2: "set ?ks = {y. \<exists>t. Some t \<in> set ts \<and> year t = y}"
    using Some_in_map_option [of _ year ts] by (simp only: set_group_keys)
  have 3: "?ks = [lo..hi]" if "{y. \<exists>t. Some t \<in> set ts \<and> year t = y} = {lo..hi}" for lo hi
    using upto_unique [OF group_keys_strict, of "map (map_option year) ts" lo hi] 2 that by simp
  show ?thesis
    apply (rule exI [of _ col], rule exI [of _ ts], rule exI [of _ gy], rule exI [of _ ?ks])
    using col ts out 1 2 3 apply (intro conjI allI impI)
         apply assumption+
    done
qed

theorem summary_years_are_source_years_witness:
  "\<exists>files' out.
     process_data iso_to_datetime (tables_of global_1900) = (files', Inr out) \<and>
     tables_of global_1900 GLOBAL = Some global_1900 \<and>
     (\<exists>col ts gy ks.
           map_of global_1900 ''dt'' = Some col \<and> iso_to_datetime col = Some ts \<and>
           out ''global_yearly'' = Some gy \<and>
           map_of gy ''Year'' = Some (Int64 (map Some ks)) \<and>
           set ks = {y. \<exists>t. Some t \<in> set ts \<and> year t = y} \<and>
           (\<forall>lo hi. {y. \<exists>t. Some t \<in> set ts \<and> year t = y} = {lo..hi} \<longrightarrow> ks = [lo..hi]))"
proof -
  from run_1900 obtain files' out where
    h: "process_data iso_to_datetime (tables_of global_1900) = (files', Inr out)" by blast
  have g: "tables_of global_1900 GLOBAL = Some global_1900" by (simp add: tables_of_def)
  note c = summary_years_are_source_years [OF h g]
  show ?thesis
    by (rule exI [of _ files'], rule exI [of _ out], intro conjI, rule h, rule g, rule c)
qed

theorem summary_years_gap_counterexample:
  "summary_of iso_to_datetime (tables_of global_1900) =
     Some [(''Year'', Int64 [Some 1900, Some 1901, Some 1903]),
           (''LandAverageTemperature'', Float64 [Some 15, Some 30, None]),
           (''10Y_MA'', Float64 [None, None, None])] \<and>
   (1902::int) \<in> {1900..1903} \<and> (1902::int) \<notin> set [1900, 1901, 1903]"
proof -
  have "summary_of iso_to_datetime (tables_of global_1900) =
     Some [(''Year'', Int64 [Some 1900, Some 1901, Some 1903]),
           (''LandAverageTemperature'', Float64 [Some 15, Some 30, None]),
           (''10Y_MA'', Float64 [None, None, None])]"
    by code_simp
  then show ?thesis by simp
qed

section \<open>Effects and failures of process_data\<close>

text \<open>
  Claim C6, as amended. \<open>process_data\<close> is not pure: in each of the three tables it
  overwrites the column \<^verbatim>\<open>dt\<close> with the parsed dates and sets the column \<^verbatim>\<open>Year\<close>, in
  place, and the entries \<^verbatim>\<open>countries\<close> and \<^verbatim>\<open>cities\<close> of its result are those same
  tables. That is all it does to its input: the mapping keeps its names, every entry other
  than the three tables is unchanged, and so is every column of the three tables other
  than \<^verbatim>\<open>dt\<close> and \<^verbatim>\<open>Year\<close>. It fails with the parse error of a malformed date, or with
  a KeyError for a missing table or column; for a mapping that holds the three tables, each
  with a column \<^verbatim>\<open>dt\<close>, and a numeric \<^verbatim>\<open>LandAverageTemperature\<close> in the global table, the
  parse error is the only failure. As stated the claim fails twice: the global table has a
  column \<^verbatim>\<open>Year\<close> after the call that it did not have before, and a global table without
  the temperature column makes the call raise KeyError.
\<close>

theorem process_data_effects:
  assumes "process_data to_datetime data_files = (files', result)"
  shows "(\<forall>n. (files' n = None \<longleftrightarrow> data_files n = None) \<and>
              (n \<notin> {GLOBAL, BY_COUNTRY, BY_CITY} \<longrightarrow> files' n = data_files n) \<and>
              (\<forall>t t' c. data_files n = Some t \<and> files' n = Some t' \<and> c \<noteq> ''dt'' \<and> c \<noteq> ''Year''
                  \<longrightarrow> map_of t' c = map_of t c)) \<and>
         (\<forall>out. result = Inr out \<longrightarrow>
              out ''countries'' = files' BY_COUNTRY \<and> out ''cities'' = files' BY_CITY \<and>
              (\<forall>n \<in> {GLOBAL, BY_COUNTRY, BY_CITY}. \<exists>t' ts.
                  files' n = Some t' \<and> map_of t' ''dt'' = Some (Datetime64 ts) \<and>
                  map_of t' ''Year'' = Some (Int64 (map (map_option year) ts)))) \<and>
         (\<forall>e. result = Inl e \<longrightarrow>
              e = ParserError \<or>
              e \<in> KeyError ` {GLOBAL, BY_COUNTRY, BY_CITY, ''dt'', ''LandAverageTemperature''}) \<and>
         ((\<forall>n \<in> {GLOBAL, BY_COUNTRY, BY_CITY}. \<exists>t col. data_files n = Some t \<and> map_of t ''dt'' = Some col) \<and>
          (\<exists>g col xs. data_files GLOBAL = Some g \<and>
              map_of g ''LandAverageTemperature'' = Some col \<and> numeric_values col = Some xs)
          \<longrightarrow> (\<forall>e. result = Inl e \<longrightarrow> e = ParserError))"
proof (intro conjI allI impI)
  fix n
  show "files' n = None \<longleftrightarrow> data_files n = None"
    using process_data_frame [OF assms, of n] by auto
next
  fix n assume "n \<notin> {GLOBAL, BY_COUNTRY, BY_CITY}"
  then show "files' n = data_files n"
    using process_data_frame [OF assms, of n] by blast
next
  fix n t t' c
  assume h: "data_files n = Some t \<and> files' n = Some t' \<and> c \<noteq> ''dt'' \<and> c \<noteq> ''Year''"
  from process_data_frame [OF assms, of n] h
  have "t' = t \<or> annotate to_datetime t = Inr t'" by auto
  then show "map_of t' c = map_of t c"
    using h annotate_frame [of to_datetime t t' c] by auto
next
  fix out assume r: "result = Inr out"
  with assms have run: "process_data to_datetime data_files = (files', Inr out)" by simp
  then obtain g g' gy c c' ci ci' where
    an: "annotate to_datetime g = Inr g'" "annotate to_datetime c = Inr c'"
        "annotate to_datetime ci = Inr ci'" and
    f: "files' = data_files(GLOBAL \<mapsto> g', BY_COUNTRY \<mapsto> c', BY_CITY \<mapsto> ci')" and
    o: "out = [''global_yearly'' \<mapsto> gy, ''countries'' \<mapsto> c', ''cities'' \<mapsto> ci']"
    by (rule process_data_Inr)
  show "out ''countries'' = files' BY_COUNTRY" by (simp add: f o)
  show "out ''cities'' = files' BY_CITY" by (simp add: f o)
  have col: "\<exists>ts. map_of t' ''dt'' = Some (Datetime64 ts) \<and>
                  map_of t' ''Year'' = Some (Int64 (map (map_option year) ts))"
    if "annotate to_datetime t = Inr t'" for t t'
    using annotate_columns [OF that] by (auto simp: dt_year_def)
  show "\<forall>n \<in> {GLOBAL, BY_COUNTRY, BY_CITY}. \<exists>t' ts.
          files' n = Some t' \<and> map_of t' ''dt'' = Some (Datetime64 ts) \<and>
          map_of t' ''Year'' = Some (Int64 (map (map_option year) ts))"
  proof
    fix n assume "n \<in> {GLOBAL, BY_COUNTRY, BY_CITY}"
    then consider "n = GLOBAL" | "n = BY_COUNTRY" | "n = BY_CITY" by blast
    then show "\<exists>t' ts. files' n = Some t' \<and> map_of t' ''dt'' = Some (Datetime64 ts) \<and>
                    map_of t' ''Year'' = Some (Int64 (map (map_option year) ts))"
    proof cases
      case 1
      with col [OF an(1)] show ?thesis by (simp add: f)
    next
      case 2
      with col [OF an(2)] show ?thesis by (simp add: f)
    next
      case 3
      with col [OF an(3)] show ?thesis by (simp add: f)
    qed
  qed
next
  fix e assume "result = Inl e"
  with assms have run: "process_data to_datetime data_files = (files', Inl e)" by simp
  from process_data_Inl [OF run]
  show "e = ParserError \<or>
        e \<in> KeyError ` {GLOBAL, BY_COUNTRY, BY_CITY, ''dt'', ''LandAverageTemperature''}"
  proof (elim disjE bexE exE conjE)
    fix n assume "n \<in> {GLOBAL, BY_COUNTRY, BY_CITY}" "e = KeyError n"
    then show ?thesis by auto
  next
    fix n t assume "annotate to_datetime t = Inl e"
    from annotate_Inl [OF this] show ?thesis by auto
  next
    fix g g' assume "annotate to_datetime g = Inr g'" "global_summary g' = Inl e"
    from global_summary_Inl [OF this] have "e = KeyError ''LandAverageTemperature''"
      by (rule conjunct1)
    then show ?thesis by simp
  qed
next
  fix e
  assume schema: "(\<forall>n \<in> {GLOBAL, BY_COUNTRY, BY_CITY}. \<exists>t col. data_files n = Some t \<and> map_of t ''dt'' = Some col) \<and>
          (\<exists>g col xs. data_files GLOBAL = Some g \<and>
              map_of g ''LandAverageTemperature'' = Some col \<and> numeric_values col = Some xs)"
    and r: "result = Inl e"
  from r assms have run: "process_data to_datetime data_files = (files', Inl e)" by simp
  from schema have dts: "\<forall>n \<in> {GLOBAL, BY_COUNTRY, BY_CITY}. \<exists>t col. data_files n = Some t \<and> map_of t ''dt'' = Some col"
    by (rule conjunct1)
  from schema obtain g0 col0 xs0 where lat: "data_files GLOBAL = Some g0"
    "map_of g0 ''LandAverageTemperature'' = Some col0" "numeric_values col0 = Some xs0"
    by (elim conjE exE)
  from process_data_Inl [OF run]
  show "e = ParserError"
  proof (elim disjE bexE exE conjE)
    fix n assume n: "n \<in> {GLOBAL, BY_COUNTRY, BY_CITY}" and none: "data_files n = None"
    from bspec [OF dts n] obtain t where "data_files n = Some t" by blast
    with none show ?thesis by simp
  next
    fix n t assume n: "n \<in> {GLOBAL, BY_COUNTRY, BY_CITY}" "data_files n = Some t"
      and a: "annotate to_datetime t = Inl e"
    from bspec [OF dts n(1)] n(2) obtain col where "map_of t ''dt'' = Some col" by auto
    with annotate_Inl [OF a] show ?thesis by auto
  next
    fix g g' assume g: "data_files GLOBAL = Some g"
      and a: "annotate to_datetime g = Inr g'" "global_summary g' = Inl e"
    from lat g have "map_of g ''LandAverageTemperature'' = Some col0" by simp
    with global_summary_Inl [OF a] lat(3) show ?thesis by blast
  qed
qed

theorem process_data_effects_witness:
  "process_data iso_to_datetime (tables_of global_malformed) =
      (tables_of global_malformed, Inl ParserError) \<and>
   (\<exists>t col. tables_of global_malformed GLOBAL = Some t \<and> map_of t ''dt'' = Some col) \<and>
   (\<exists>t col. tables_of global_malformed BY_COUNTRY = Some t \<and> map_of t ''dt'' = Some col) \<and>
   (\<exists>t col. tables_of global_malformed BY_CITY = Some t \<and> map_of t ''dt'' = Some col) \<and>
   (\<exists>g col xs. tables_of global_malformed GLOBAL = Some g \<and>
       map_of g ''LandAverageTemperature'' = Some col \<and> numeric_values col = Some xs) \<and>
   (\<exists>files' out.
      process_data iso_to_datetime (tables_of global_1900) = (files', Inr out) \<and>
    (\<forall>n. (files' n = None \<longleftrightarrow> tables_of global_1900 n = None) \<and>
              (n \<notin> {GLOBAL, BY_COUNTRY, BY_CITY} \<longrightarrow> files' n = tables_of global_1900 n) \<and>
              (\<forall>t t' c. tables_of global_1900 n = Some t \<and> files' n = Some t' \<and> c \<noteq> ''dt'' \<and> c \<noteq> ''Year''
                  \<longrightarrow> map_of t' c = map_of t c)) \<and>
         (\<forall>out'. (Inr out :: exn + tables) = Inr out' \<longrightarrow>
              out' ''countries'' = files' BY_COUNTRY \<and> out' ''cities'' = files' BY_CITY \<and>
              (\<forall>n \<in> {GLOBAL, BY_COUNTRY, BY_CITY}. \<exists>t' ts.
                  files' n = Some t' \<and> map_of t' ''dt'' = Some (Datetime64 ts) \<and>
                  map_of t' ''Year'' = Some (Int64 (map (map_option year) ts)))) \<and>
         (\<forall>e. (Inr out :: exn + tables) = Inl e \<longrightarrow>
              e = ParserError \<or>
              e \<in> KeyError ` {GLOBAL, BY_COUNTRY, BY_CITY, ''dt'', ''LandAverageTemperature''}) \<and>
         ((\<forall>n \<in> {GLOBAL, BY_COUNTRY, BY_CITY}. \<exists>t col. tables_of global_1900 n = Some t \<and> map_of t ''dt'' = Some col) \<and>
          (\<exists>g col xs. tables_of global_1900 GLOBAL = Some g \<and>
              map_of g ''LandAverageTemperature'' = Some col \<and> numeric_values col = Some xs)
          \<longrightarrow> (\<forall>e. (Inr out :: exn + tables) = Inl e \<longrightarrow> e = ParserError)))"
proof -
  have 1: "\<exists>t col. tables_of global_malformed GLOBAL = Some t \<and> map_of t ''dt'' = Some col"
    by (simp add: tables_of_def global_malformed_def)
  have 2: "\<exists>t col. tables_of global_malformed BY_COUNTRY = Some t \<and> map_of t ''dt'' = Some col"
    by (simp add: tables_of_def small_country_def)
  have 3: "\<exists>t col. tables_of global_malformed BY_CITY = Some t \<and> map_of t ''dt'' = Some col"
    by (simp add: tables_of_def small_city_def)
  have 4: "\<exists>g col xs. tables_of global_malformed GLOBAL = Some g \<and>
       map_of g ''LandAverageTemperature'' = Some col \<and> numeric_values col = Some xs"
    by (simp add: tables_of_def global_malformed_def)
  from run_1900 obtain files' out where
    h: "process_data iso_to_datetime (tables_of global_1900) = (files', Inr out)" by blast
  note b = process_data_effects [OF h]
  show ?thesis
    apply (rule conjI [OF run_malformed])
    apply (rule conjI [OF 1])
    apply (rule conjI [OF 2])
    apply (rule conjI [OF 3])
    apply (rule conjI [OF 4])
    apply (rule exI [of _ files'], rule exI [of _ out])
    apply (rule conjI [OF h b])
    done
qed

theorem process_data_mutates_counterexample:
  "tables_of global_1900 GLOBAL = Some global_1900 \<and>
   map_of global_1900 ''Year'' = None \<and>
   fst (process_data iso_to_datetime (tables_of global_1900)) GLOBAL =
     Some [(''dt'', Datetime64 [Some (Timestamp 1900 1 1), Some (Timestamp 1900 2 1),
                               Some (Timestamp 1901 1 1), Some (Timestamp 1903 1 1)]),
           (''LandAverageTemperature'', Float64 [Some 10, Some 20, Some 30, None]),
           (''Source'', Object [Some ''a'', Some ''b'', None, None]),
           (''Year'', Int64 [Some 1900, Some 1900, Some 1901, Some 1903])] \<and>
   failure_of iso_to_datetime (tables_of global_no_temperature) =
     Some (KeyError ''LandAverageTemperature'')"
proof -
  have 1: "tables_of global_1900 GLOBAL = Some global_1900" by (simp add: tables_of_def)
  have 2: "map_of global_1900 ''Year'' = None" by (simp add: global_1900_def)
  have 3: "fst (process_data iso_to_datetime (tables_of global_1900)) GLOBAL =
     Some [(''dt'', Datetime64 [Some (Timestamp 1900 1 1), Some (Timestamp 1900 2 1),
                               Some (Timestamp 1901 1 1), Some (Timestamp 1903 1 1)]),
           (''LandAverageTemperature'', Float64 [Some 10, Some 20, Some 30, None]),
           (''Source'', Object [Some ''a'', Some ''b'', None, None]),
           (''Year'', Int64 [Some 1900, Some 1900, Some 1901, Some 1903])]"
    by code_simp
  have 4: "failure_of iso_to_datetime (tables_of global_no_temperature) =
     Some (KeyError ''LandAverageTemperature'')"
    by code_simp
  from 1 2 3 4 show ?thesis by (intro conjI)
qed

section \<open>Acquisition\<close>

text \<open>
  Claim C3, as amended. On the download path, for a response that declares a positive
  content length, the page shows progress 0, then after each chunk the bytes received so
  far divided by the declared length, capped at 1, then the cleared bar. The cap makes
  the report differ from the ratio once the body is longer than declared. The claim's
  second half fails: with no content-length header \<^verbatim>\<open>total_size\<close> is 0 and the first chunk
  makes \<^verbatim>\<open>downloaded / total_size\<close> raise ZeroDivisionError, which ends the download
  with the message \<^verbatim>\<open>Download failed\<close>; no progress is reported for any chunk.
\<close>

theorem progress_is_capped_ratio:
  assumes "\<not> all_exist w" "http_get env DATA_URL = Some r" "status_ok r"
    "content_length env r = Some n" "0 < n"
  shows "\<exists>rest. page (fst (get_climate_data env w)) =
     page w @ Progress 0 #
       map (\<lambda>i. Progress (min (real (bytes_received (chunks r) i) / real_of_int n) 1))
         [0..<length (chunks r)] @ ProgressEmpty # rest"
proof -
  let ?reports = "page w @ Progress 0 #
       map (\<lambda>i. Progress (min (real (bytes_received (chunks r) i) / real_of_int n) 1))
         [0..<length (chunks r)] @ [ProgressEmpty]"
  obtain w3 res where f: "fetch_archive env w = (w3, res)" by (cases "fetch_archive env w")
  have pg: "page w3 = ?reports"
    using fetch_archive_page [OF assms(2-5), of w] f by simp
  have "\<exists>rest. page (fst (get_climate_data env w)) = ?reports @ rest"
  proof (cases res)
    case (Inl e)
    with f assms(1) pg show ?thesis by (simp add: get_climate_data_def)
  next
    case (Inr z)
    obtain pg' r2 where x: "extract_all env z (map fst required_files) (required_files, page w3) = (pg', r2)"
      by (cases "extract_all env z (map fst required_files) (required_files, page w3)")
    from extract_all_page [OF x] obtain rest where rest: "pg' = page w3 @ rest" by blast
    show ?thesis
    proof (cases r2)
      case (Inl e)
      with f assms(1) pg Inr x rest show ?thesis by (simp add: get_climate_data_def)
    next
      case (Inr req)
      with f assms(1) pg \<open>res = Inr z\<close> x rest show ?thesis
        by (simp add: get_climate_data_def Let_def)
    qed
  qed
  then show ?thesis by simp
qed

theorem progress_is_capped_ratio_witness:
  "\<not> all_exist empty_world \<and>
   http_get (toy_env long_response) DATA_URL = Some long_response \<and>
   status_ok long_response \<and>
   content_length (toy_env long_response) long_response = Some 4 \<and> (0::int) < 4 \<and>
   (\<exists>rest. page (fst (get_climate_data (toy_env long_response) empty_world)) =
     page empty_world @ Progress 0 #
       map (\<lambda>i. Progress (min (real (bytes_received (chunks long_response) i) / real_of_int 4) 1))
         [0..<length (chunks long_response)] @ ProgressEmpty # rest) \<and>
   page (fst (get_climate_data (toy_env long_response) empty_world)) =
     [Progress 0, Progress (3 / 4), Progress 1, ProgressEmpty]"
proof -
  have 1: "http_get (toy_env long_response) DATA_URL = Some long_response"
    by (simp add: toy_env_def)
  have 2: "status_ok long_response" by (simp add: long_response_def)
  have 3: "content_length (toy_env long_response) long_response = Some 4" by code_simp
  have 4: "(0::int) < 4" by simp
  note c = progress_is_capped_ratio [OF not_all_exist_empty 1 2 3 4]
  have e: "page (fst (get_climate_data (toy_env long_response) empty_world)) =
     [Progress 0, Progress (3 / 4), Progress 1, ProgressEmpty]"
    by code_simp
  show ?thesis
    apply (rule conjI [OF not_all_exist_empty])
    apply (rule conjI [OF 1])
    apply (rule conjI [OF 2])
    apply (rule conjI [OF 3])
    apply (rule conjI [OF 4])
    apply (rule conjI [OF c e])
    done
qed

theorem progress_unknown_length_counterexample:
  "page (fst (get_climate_data (toy_env long_response) empty_world)) =
     [Progress 0, Progress (3 / 4), Progress 1, ProgressEmpty] \<and>
   content_length (toy_env long_response) long_response = Some 4 \<and>
   real (bytes_received (chunks long_response) 1) / real_of_int 4 = 5 / 4 \<and>
   headers no_length_response ''content-length'' = None \<and>
   page (fst (get_climate_data (toy_env no_length_response) empty_world)) =
     [Progress 0, DownloadFailed ZeroDivisionError] \<and>
   snd (get_climate_data (toy_env no_length_response) empty_world) = Stopped"
proof -
  have 1: "page (fst (get_climate_data (toy_env long_response) empty_world)) =
     [Progress 0, Progress (3 / 4), Progress 1, ProgressEmpty]"
    by code_simp
  have 2: "content_length (toy_env long_response) long_response = Some 4" by code_simp
  have 3: "real (bytes_received (chunks long_response) 1) / real_of_int 4 = 5 / 4"
    by (simp add: bytes_received_def long_response_def)
  have 4: "headers no_length_response ''content-length'' = None"
    by (simp add: no_length_response_def)
  have 5: "page (fst (get_climate_data (toy_env no_length_response) empty_world)) =
     [Progress 0, DownloadFailed ZeroDivisionError]"
    by code_simp
  have 6: "snd (get_climate_data (toy_env no_length_response) empty_world) = Stopped"
    by code_simp
  from 1 2 3 4 5 6 show ?thesis by (intro conjI)
qed

text \<open>
  Claim C4, as amended. When the three cache files exist, the call requests nothing from
  the network, writes no file and puts nothing on the page; it reads each file, and when
  the three of them parse it returns the three tables. A cache file that does not parse
  makes the call raise instead of returning, as the counterexample with an empty first
  file shows.
\<close>

theorem cached_files_no_network:
  assumes "all_exist w"
  shows "requests (fst (get_climate_data env w)) = requests w \<and>
         files (fst (get_climate_data env w)) = files w \<and>
         page (fst (get_climate_data env w)) = page w \<and>
         snd (get_climate_data env w) =
           (case (loaded env w GLOBAL, loaded env w BY_COUNTRY, loaded env w BY_CITY) of
              (Some g, Some c, Some ci) \<Rightarrow>
                Returned [(GLOBAL, Some g), (BY_COUNTRY, Some c), (BY_CITY, Some ci)]
            | _ \<Rightarrow> Raised ParserError)"
  by (simp add: cached_outcome [OF assms])

theorem cached_files_no_network_witness:
  "all_exist cached_world \<and>
   (requests (fst (get_climate_data (toy_env full_response) cached_world)) = requests cached_world \<and>
    files (fst (get_climate_data (toy_env full_response) cached_world)) = files cached_world \<and>
    page (fst (get_climate_data (toy_env full_response) cached_world)) = page cached_world \<and>
    snd (get_climate_data (toy_env full_response) cached_world) =
      (case (loaded (toy_env full_response) cached_world GLOBAL,
             loaded (toy_env full_response) cached_world BY_COUNTRY,
             loaded (toy_env full_response) cached_world BY_CITY) of
         (Some g, Some c, Some ci) \<Rightarrow>
           Returned [(GLOBAL, Some g), (BY_COUNTRY, Some c), (BY_CITY, Some ci)]
       | _ \<Rightarrow> Raised ParserError)) \<and>
   snd (get_climate_data (toy_env full_response) cached_world) =
     Returned [(GLOBAL, Some (toy_table ''1900-01-01'')),
               (BY_COUNTRY, Some (toy_table ''1900-02-01'')),
               (BY_CITY, Some (toy_table ''1900-03-01''))] \<and>
   requests cached_world = []"
proof -
  note c = cached_files_no_network [OF all_exist_cached, of "toy_env full_response"]
  have e: "snd (get_climate_data (toy_env full_response) cached_world) =
     Returned [(GLOBAL, Some (toy_table ''1900-01-01'')),
               (BY_COUNTRY, Some (toy_table ''1900-02-01'')),
               (BY_CITY, Some (toy_table ''1900-03-01''))]"
    by code_simp
  have r: "requests cached_world = []" by (simp add: cached_world_def)
  show ?thesis
    apply (rule conjI [OF all_exist_cached])
    apply (rule conjI [OF c])
    apply (rule conjI [OF e r])
    done
qed

theorem cached_file_unparseable_counterexample:
  "all_exist corrupt_world \<and>
   snd (get_climate_data (toy_env full_response) corrupt_world) = Raised ParserError"
proof -
  have 1: "all_exist corrupt_world"
    by (simp add: all_exist_def required_files_def corrupt_world_def)
  have 2: "snd (get_climate_data (toy_env full_response) corrupt_world) = Raised ParserError"
    by code_simp
  from 1 2 show ?thesis by (rule conjI)
qed

text \<open>
  Claim C5. A call that returns, returns the three names, each with a table, and each
  table is the one loaded for that name. So when one of the three datasets fails to load
  (no response or an error status, no archive, a missing member, or text that does not
  parse, on either path) the call does not return: the script is stopped or the exception
  leaves the call.
\<close>

theorem no_partial_result:
  "(\<forall>req. snd (get_climate_data env w) = Returned req \<longrightarrow>
      map fst req = map fst required_files \<and>
      (\<forall>f\<in>set (map fst required_files). \<exists>df.
          map_of req f = Some (Some df) \<and> loaded env w f = Some df)) \<and>
   ((\<exists>f\<in>set (map fst required_files). loaded env w f = None) \<longrightarrow>
      snd (get_climate_data env w) = Stopped \<or> (\<exists>e. snd (get_climate_data env w) = Raised e))"
proof (intro conjI allI impI)
  fix req assume "snd (get_climate_data env w) = Returned req"
  from returned_complete [OF this]
  show "map fst req = map fst required_files"
    and "\<forall>f\<in>set (map fst required_files). \<exists>df.
          map_of req f = Some (Some df) \<and> loaded env w f = Some df"
    by simp_all
next
  assume "\<exists>f\<in>set (map fst required_files). loaded env w f = None"
  then obtain f where f: "f \<in> set (map fst required_files)" "loaded env w f = None" by blast
  show "snd (get_climate_data env w) = Stopped \<or> (\<exists>e. snd (get_climate_data env w) = Raised e)"
  proof (cases "snd (get_climate_data env w)")
    case (Returned req)
    from returned_complete [OF this] f show ?thesis by force
  next
    case Stopped
    then show ?thesis by simp
  next
    case (Raised e)
    then show ?thesis by simp
  qed
qed

theorem no_partial_result_witness:
  "BY_CITY \<in> set (map fst required_files) \<and>
   loaded (toy_env missing_city_response) empty_world BY_CITY = None \<and>
   (snd (get_climate_data (toy_env missing_city_response) empty_world) = Stopped \<or>
    (\<exists>e. snd (get_climate_data (toy_env missing_city_response) empty_world) = Raised e)) \<and>
   snd (get_climate_data (toy_env missing_city_response) empty_world) = Stopped \<and>
   snd (get_climate_data (toy_env full_response) empty_world) =
     Returned [(GLOBAL, Some (toy_table ''1900-01-01'')),
               (BY_COUNTRY, Some (toy_table ''1900-02-01'')),
               (BY_CITY, Some (toy_table ''1900-03-01''))] \<and>
   map fst [(GLOBAL, Some (toy_table ''1900-01-01'')),
            (BY_COUNTRY, Some (toy_table ''1900-02-01'')),
            (BY_CITY, Some (toy_table ''1900-03-01''))] = map fst required_files \<and>
   (\<exists>df. map_of [(GLOBAL, Some (toy_table ''1900-01-01'')),
                    (BY_COUNTRY, Some (toy_table ''1900-02-01'')),
                    (BY_CITY, Some (toy_table ''1900-03-01''))] BY_CITY = Some (Some df) \<and>
         loaded (toy_env full_response) empty_world BY_CITY = Some df)"
proof -
  note c = no_partial_result [of "toy_env missing_city_response" empty_world]
  note c' = no_partial_result [of "toy_env full_response" empty_world]
  have 1: "BY_CITY \<in> set (map fst required_files)" by (simp add: required_files_def)
  have 2: "loaded (toy_env missing_city_response) empty_world BY_CITY = None" by code_simp
  have 3: "snd (get_climate_data (toy_env missing_city_response) empty_world) = Stopped"
    by code_simp
  have 4: "snd (get_climate_data (toy_env full_response) empty_world) =
     Returned [(GLOBAL, Some (toy_table ''1900-01-01'')),
               (BY_COUNTRY, Some (toy_table ''1900-02-01'')),
               (BY_CITY, Some (toy_table ''1900-03-01''))]"
    by code_simp
  have "\<exists>f\<in>set (map fst required_files).
          loaded (toy_env missing_city_response) empty_world f = None"
    using 1 2 by (rule bexI [rotated])
  with c have 5: "snd (get_climate_data (toy_env missing_city_response) empty_world) = Stopped \<or>
    (\<exists>e. snd (get_climate_data (toy_env missing_city_response) empty_world) = Raised e)"
    by (rule conjunct2 [THEN mp])
  from c' have "\<forall>req. snd (get_climate_data (toy_env full_response) empty_world) = Returned req \<longrightarrow>
      map fst req = map fst required_files \<and>
      (\<forall>f\<in>set (map fst required_files). \<exists>df.
          map_of req f = Some (Some df) \<and> loaded (toy_env full_response) empty_world f = Some df)"
    by (rule conjunct1)
  from this [THEN spec, THEN mp, OF 4]
  have 6: "map fst [(GLOBAL, Some (toy_table ''1900-01-01'')),
            (BY_COUNTRY, Some (toy_table ''1900-02-01'')),
            (BY_CITY, Some (toy_table ''1900-03-01''))] = map fst required_files"
    and all: "\<forall>f\<in>set (map fst required_files). \<exists>df.
          map_of [(GLOBAL, Some (toy_table ''1900-01-01'')),
                  (BY_COUNTRY, Some (toy_table ''1900-02-01'')),
                  (BY_CITY, Some (toy_table ''1900-03-01''))] f = Some (Some df) \<and>
          loaded (toy_env full_response) empty_world f = Some df"
    by (rule conjunct1, rule conjunct2)
  note 7 = bspec [OF all 1]
  show ?thesis
    apply (rule conjI [OF 1])
    apply (rule conjI [OF 2])
    apply (rule conjI [OF 5])
    apply (rule conjI [OF 3])
    apply (rule conjI [OF 4])
    apply (rule conjI [OF 6 7])
    done
qed

text \<open>
  Claim C7, as amended. On the download path the files after the call are the files
  before it, except that, when the archive was obtained and every member that is there
  parses, each parsed dataset whose name has no file yet is written under its name. A
  file that exists is never overwritten, and a missing member is not written. When the
  download fails or a member that is there does not parse, nothing is written at all, not
  even the datasets parsed before the failure: the counterexample is the archive whose
  global member parses and whose city member does not.
\<close>

theorem parsed_datasets_persisted:
  assumes "\<not> all_exist w"
  shows "files (fst (get_climate_data env w)) =
     (case snd (fetch_archive env w) of
        Inl e \<Rightarrow> files w
      | Inr z \<Rightarrow>
          if members_parse env z
          then (\<lambda>f. if f \<in> set (map fst required_files) \<and> files w f = None
                    then Option.bind (z f) (\<lambda>b. map_option (to_csv env) (read_csv env b))
                    else files w f)
          else files w)"
proof -
  obtain w3 res where f: "fetch_archive env w = (w3, res)" by (cases "fetch_archive env w")
  have fw: "files w3 = files w" using fetch_archive_files [of env w] f by simp
  show ?thesis
  proof (cases res)
    case (Inl e)
    with f assms fw show ?thesis by (simp add: get_climate_data_def)
  next
    case (Inr z)
    obtain pg' r2 where x: "extract_all env z (map fst required_files) (required_files, page w3) = (pg', r2)"
      by (cases "extract_all env z (map fst required_files) (required_files, page w3)")
    show ?thesis
    proof (cases r2)
      case (Inl e)
      from extract_all_Inl [OF x [unfolded Inl]] have "\<not> members_parse env z"
        unfolding members_parse_iff by blast
      with f assms fw Inr x Inl show ?thesis by (simp add: get_climate_data_def)
    next
      case r: (Inr req)
      from extract_all_Inr [OF x [unfolded r]]
      have keys: "map fst req = map fst required_files"
        and parse: "\<forall>f\<in>set (map fst required_files). \<forall>b. z f = Some b \<longrightarrow> read_csv env b \<noteq> None"
        and look: "\<And>f. map_of req f =
            (if f \<in> set (map fst required_files)
             then (case z f of None \<Rightarrow> map_of required_files f | Some b \<Rightarrow> Some (read_csv env b))
             else map_of required_files f)"
        by auto
      from parse have mp: "members_parse env z" unfolding members_parse_iff .
      have d: "distinct (map fst req)" by (simp add: keys keys_required)
      have saved: "files (fst (get_climate_data env w)) = save_all env req (files w)"
        using f assms fw Inr x r by (simp add: get_climate_data_def Let_def)
      have "save_all env req (files w) f =
          (if f \<in> set (map fst required_files) \<and> files w f = None
           then Option.bind (z f) (\<lambda>b. map_option (to_csv env) (read_csv env b))
           else files w f)" for f
        unfolding save_all_lookup [OF d] look map_of_required
        using parse by (auto split: option.splits)
      then have "save_all env req (files w) =
          (\<lambda>f. if f \<in> set (map fst required_files) \<and> files w f = None
                then Option.bind (z f) (\<lambda>b. map_option (to_csv env) (read_csv env b))
                else files w f)" by (rule ext)
      with saved f Inr mp show ?thesis by simp
    qed
  qed
qed

theorem parsed_datasets_persisted_witness:
  "\<not> all_exist partial_world \<and>
   files (fst (get_climate_data (toy_env full_response) partial_world)) =
     (case snd (fetch_archive (toy_env full_response) partial_world) of
        Inl e \<Rightarrow> files partial_world
      | Inr z \<Rightarrow>
          if members_parse (toy_env full_response) z
          then (\<lambda>f. if f \<in> set (map fst required_files) \<and> files partial_world f = None
                    then Option.bind (z f)
                           (\<lambda>b. map_option (to_csv (toy_env full_response))
                                  (read_csv (toy_env full_response) b))
                    else files partial_world f)
          else files partial_world) \<and>
   files partial_world BY_COUNTRY = Some ''1850-01-01'' \<and>
   files (fst (get_climate_data (toy_env full_response) partial_world)) BY_COUNTRY =
     Some ''1850-01-01'' \<and>
   files (fst (get_climate_data (toy_env full_response) partial_world)) GLOBAL =
     Some ''1900-01-01'' \<and>
   files (fst (get_climate_data (toy_env full_response) partial_world)) BY_CITY =
     Some ''1900-03-01''"
proof -
  note c = parsed_datasets_persisted [OF not_all_exist_partial, of "toy_env full_response"]
  have 1: "files partial_world BY_COUNTRY = Some ''1850-01-01''" by (simp add: partial_world_def)
  have 2: "files (fst (get_climate_data (toy_env full_response) partial_world)) BY_COUNTRY =
     Some ''1850-01-01''" by code_simp
  have 3: "files (fst (get_climate_data (toy_env full_response) partial_world)) GLOBAL =
     Some ''1900-01-01''" by code_simp
  have 4: "files (fst (get_climate_data (toy_env full_response) partial_world)) BY_CITY =
     Some ''1900-03-01''" by code_simp
  show ?thesis
    apply (rule conjI [OF not_all_exist_partial])
    apply (rule conjI [OF c])
    apply (rule conjI [OF 1])
    apply (rule conjI [OF 2])
    apply (rule conjI [OF 3 4])
    done
qed

theorem parsed_dataset_not_saved_counterexample:
  "\<not> all_exist empty_world \<and>
   loaded (toy_env bad_city_response) empty_world GLOBAL = Some (toy_table ''1900-01-01'') \<and>
   loaded (toy_env bad_city_response) empty_world BY_CITY = None \<and>
   files empty_world GLOBAL = None \<and>
   files (fst (get_climate_data (toy_env bad_city_response) empty_world)) GLOBAL = None \<and>
   snd (get_climate_data (toy_env bad_city_response) empty_world) = Stopped"
proof -
  have 1: "loaded (toy_env bad_city_response) empty_world GLOBAL = Some (toy_table ''1900-01-01'')"
    by code_simp
  have 2: "loaded (toy_env bad_city_response) empty_world BY_CITY = None" by code_simp
  have 3: "files empty_world GLOBAL = None" by (simp add: empty_world_def)
  have 4: "files (fst (get_climate_data (toy_env bad_city_response) empty_world)) GLOBAL = None"
    by code_simp
  have 5: "snd (get_climate_data (toy_env bad_city_response) empty_world) = Stopped"
    by code_simp
  from not_all_exist_empty 1 2 3 4 5 show ?thesis by (intro conjI)
qed

section \<open>The city comparison\<close>

text \<open>
  Claim C9. With no city selected the tab puts the warning \<^verbatim>\<open>Please select at least one
  city\<close> on the page and nothing else: no chart is drawn and nothing raises.
\<close>

theorem no_city_selected:
  "tab3 cities [] = Inr [Warning ''Please select at least one city'']"
  by (simp add: tab3_def)

theorem no_city_selected_witness:
  "tab3 small_city [] = Inr [Warning ''Please select at least one city'']"
  using no_city_selected [of small_city] by simp

end
